theory Spec2Isabelle
  imports Complex_Main
begin

section \<open>JavaScript strings\<close>

text \<open>
  A JavaScript string is a sequence of UTF-16 code units; \<open>length\<close>, \<open>slice\<close>,
  \<open>startsWith\<close>, \<open>includes\<close> and \<open>trim\<close> all work on code units. The strings of the
  program are therefore lists of code units, and the literals of the source that are not
  ASCII are written out unit by unit (the source text is given next to each of them in
  transliteration).
\<close>

type_synonym jstring = "nat list"

definition ascii :: "string \<Rightarrow> jstring" where
  "ascii s = map of_char s"

text \<open>The decimal rendering of a number inside a template literal, \<open>`${n}`\<close>.\<close>

fun digits :: "nat \<Rightarrow> jstring" where
  "digits n = (if n < 10 then [48 + n] else digits (n div 10) @ [48 + n mod 10])"

declare digits.simps [simp del]

text \<open>Reading a decimal rendering back, to say that \<open>digits\<close> states the number.\<close>

definition decimal_value :: "jstring \<Rightarrow> nat" where
  "decimal_value ds = foldl (\<lambda>a d. 10 * a + (d - 48)) 0 ds"

text \<open>
  \<open>ds\<close> is the decimal numeral of \<open>n\<close>: digits \<open>0\<close> to \<open>9\<close> only, at least one, no
  leading zero except for the numeral \<open>0\<close> itself, and the value \<open>n\<close>.
\<close>

definition is_decimal_of :: "jstring \<Rightarrow> nat \<Rightarrow> bool" where
  "is_decimal_of ds n \<longleftrightarrow>
     ds \<noteq> [] \<and> list_all (\<lambda>d. 48 \<le> d \<and> d \<le> 57) ds \<and> (hd ds \<noteq> 48 \<or> ds = [48]) \<and>
     decimal_value ds = n"

text \<open>
  \<open>String.prototype.trim\<close> removes white space and line terminators from both ends:
  TAB, LF, VT, FF, CR, SP, NBSP, U+1680, U+2000..U+200A, U+2028, U+2029, U+202F,
  U+205F, U+3000 and U+FEFF.
\<close>

definition isWhiteSpace :: "nat \<Rightarrow> bool" where
  "isWhiteSpace c \<longleftrightarrow>
     (9 \<le> c \<and> c \<le> 13) \<or> c = 32 \<or> c = 0xA0 \<or> c = 0x1680 \<or>
     (0x2000 \<le> c \<and> c \<le> 0x200A) \<or> c = 0x2028 \<or> c = 0x2029 \<or> c = 0x202F \<or>
     c = 0x205F \<or> c = 0x3000 \<or> c = 0xFEFF"

definition trim :: "jstring \<Rightarrow> jstring" where
  "trim s = rev (dropWhile isWhiteSpace (rev (dropWhile isWhiteSpace s)))"

fun startsWith :: "jstring \<Rightarrow> jstring \<Rightarrow> bool" where
  "startsWith s p = (take (length p) s = p)"

fun includes_str :: "jstring \<Rightarrow> jstring \<Rightarrow> bool" where
  "includes_str [] p = (p = [])"
| "includes_str (c # cs) p = (startsWith (c # cs) p \<or> includes_str cs p)"

section \<open>Context truncation (server.js, truncateForModel)\<close>

text \<open>
  The notice of the source is the template
  \<open>...(wei jiesheng shangxiawen, yi jieduan, gong ${s.length} zifu)\n\<close>
  ("truncated to save context, N characters in total").
\<close>

definition notice :: "nat \<Rightarrow> jstring" where
  "notice n =
     [46, 46, 46, 40, 0x4e3a, 0x8282, 0x7701, 0x4e0a, 0x4e0b, 0x6587, 0xff0c, 0x5df2,
      0x622a, 0x65ad, 0xff0c, 0x5171, 32]
     @ digits n @ [32, 0x5b57, 0x7b26, 41, 10]"

text \<open>
  \<^verbatim>\<open>
  function truncateForModel(str, maxChars = 12000) {
    if (!str) return '';
    const s = String(str);
    if (s.length <= maxChars) return s;
    return `...(...${s.length}...)\n` + s.slice(s.length - maxChars);
  }
  \<close>
  Every caller passes a string, so \<open>!str\<close> holds exactly for the empty string.
\<close>

definition truncateForModel :: "jstring \<Rightarrow> nat \<Rightarrow> jstring" where
  "truncateForModel str maxChars =
     (if str = [] then []
      else if length str \<le> maxChars then str
      else notice (length str) @ drop (length str - maxChars) str)"

definition default_maxChars :: nat where
  "default_maxChars = 12000"

section \<open>Resilient transport (modelClients.js, fetchWithRetry)\<close>

text \<open>
  A value that is thrown: an \<open>Error\<close> object with its name and message, or
  \<open>undefined\<close> (what \<open>throw lastErr\<close> throws when nothing was caught before).
\<close>

datatype jsError = JsError (errName: jstring) (errMessage: jstring) | ThrownUndefined

text \<open>
  \<open>String(err?.message || err)\<close>: the message when it is not empty, else the rendering
  of the value itself, which for an \<open>Error\<close> with an empty message is its name and for
  \<open>undefined\<close> is the text \<open>undefined\<close>.
\<close>

fun errorText :: "jsError \<Rightarrow> jstring" where
  "errorText (JsError n m) = (if m \<noteq> [] then m else n)"
| "errorText ThrownUndefined = ascii ''undefined''"

record 'b response =
  status :: nat
  body :: 'b

definition ok :: "'b response \<Rightarrow> bool" where
  "ok res \<longleftrightarrow> 200 \<le> status res \<and> status res \<le> 299"

datatype 'b outcome = Responded "'b response" | Rejected jsError

text \<open>
  The network is a parameter: \<open>fetch\<close> maps the requests sent so far, the current one
  last, to what this call of \<open>fetch\<close> does. An attempt cancelled by the timer of
  \<open>timeoutMs\<close> is a rejected attempt. The state that is threaded through the calls logs
  every request sent and every delay slept.
\<close>

type_synonym ('q, 'b) network = "'q list \<Rightarrow> 'b outcome"

record 'q net =
  sent :: "'q list"
  slept :: "nat list"

record retryCfg =
  timeoutMs :: nat
  retries :: nat
  baseDelayMs :: nat
  maxDelayMs :: nat

text \<open>The defaults of the destructuring \<open>{timeoutMs = 60000, retries = 2, ...} = cfg\<close>.\<close>

definition default_cfg :: retryCfg where
  "default_cfg = \<lparr>timeoutMs = 60000, retries = 2, baseDelayMs = 600, maxDelayMs = 2500\<rparr>"

definition isRetryableStatus :: "nat \<Rightarrow> bool" where
  "isRetryableStatus st \<longleftrightarrow> st = 429 \<or> (500 \<le> st \<and> st \<le> 599)"

definition isRetryableError :: "jsError \<Rightarrow> bool" where
  "isRetryableError err \<longleftrightarrow>
     (let msg = errorText err in
        includes_str msg (ascii ''AbortError'') \<or>
        includes_str msg (ascii ''ETIMEDOUT'') \<or>
        includes_str msg (ascii ''ECONNRESET'') \<or>
        includes_str msg (ascii ''ENOTFOUND'') \<or>
        includes_str msg (ascii ''EAI_AGAIN''))"

text \<open>\<open>Math.min(maxDelayMs, baseDelayMs * Math.pow(2, attempt))\<close>\<close>

definition backoff :: "retryCfg \<Rightarrow> nat \<Rightarrow> nat" where
  "backoff cfg attempt = min (maxDelayMs cfg) (baseDelayMs cfg * 2 ^ attempt)"

text \<open>
  \<^verbatim>\<open>
  let lastErr;
  for (let attempt = 0; attempt <= retries; attempt++) {
    try {
      const res = await fetch(url, { ...options, signal: controller.signal });
      if (isRetryableStatus(res.status) && attempt < retries) {
        const delay = Math.min(maxDelayMs, baseDelayMs * Math.pow(2, attempt));
        await sleep(delay);
        continue;
      }
      return res;
    } catch (err) {
      lastErr = err;
      if (attempt < retries && isRetryableError(err)) {
        const delay = Math.min(maxDelayMs, baseDelayMs * Math.pow(2, attempt));
        await sleep(delay);
        continue;
      }
      throw err;
    } finally { clearTimeout(id); }
  }
  throw lastErr;
  \<close>
  The loop is the recursion on \<open>attempt\<close>; \<open>Inl\<close> is a throw.
\<close>

function fetchLoop ::
  "('q, 'b) network \<Rightarrow> 'q \<Rightarrow> retryCfg \<Rightarrow> nat \<Rightarrow> jsError \<Rightarrow> 'q net
     \<Rightarrow> (jsError + 'b response) \<times> 'q net" where
  "fetchLoop fetch req cfg attempt lastErr w =
     (if attempt \<le> retries cfg then
        (let w1 = w\<lparr>sent := sent w @ [req]\<rparr> in
         case fetch (sent w1) of
           Responded res \<Rightarrow>
             if isRetryableStatus (status res) \<and> attempt < retries cfg
             then fetchLoop fetch req cfg (attempt + 1) lastErr
                    (w1\<lparr>slept := slept w1 @ [backoff cfg attempt]\<rparr>)
             else (Inr res, w1)
         | Rejected err \<Rightarrow>
             if attempt < retries cfg \<and> isRetryableError err
             then fetchLoop fetch req cfg (attempt + 1) err
                    (w1\<lparr>slept := slept w1 @ [backoff cfg attempt]\<rparr>)
             else (Inl err, w1))
      else (Inl lastErr, w))"
  by pat_completeness auto
termination
  by (relation "measure (\<lambda>(fetch, req, cfg, attempt, lastErr, w). Suc (retries cfg) - attempt)")
     auto

declare fetchLoop.simps [simp del]

definition fetchWithRetry ::
  "('q, 'b) network \<Rightarrow> 'q \<Rightarrow> retryCfg \<Rightarrow> 'q net \<Rightarrow> (jsError + 'b response) \<times> 'q net" where
  "fetchWithRetry fetch req cfg w = fetchLoop fetch req cfg 0 ThrownUndefined w"

text \<open>What the network does at the \<open>i\<close>-th attempt (from 0) of a call started in \<open>w\<close>.\<close>

definition attempt_outcome :: "('q, 'b) network \<Rightarrow> 'q \<Rightarrow> 'q net \<Rightarrow> nat \<Rightarrow> 'b outcome" where
  "attempt_outcome fetch req w i = fetch (sent w @ replicate (Suc i) req)"

fun retryable_outcome :: "'b outcome \<Rightarrow> bool" where
  "retryable_outcome (Responded res) = isRetryableStatus (status res)"
| "retryable_outcome (Rejected err) = isRetryableError err"

fun outcome_result :: "'b outcome \<Rightarrow> jsError + 'b response" where
  "outcome_result (Responded res) = Inr res"
| "outcome_result (Rejected err) = Inl err"

text \<open>
  The shape of a run of the loop that starts at \<open>attempt\<close> in state \<open>w\<close> and ends with
  \<open>r\<close> after \<open>k\<close> calls of \<open>fetch\<close>.
\<close>

definition loop_trace ::
  "('q, 'b) network \<Rightarrow> 'q \<Rightarrow> retryCfg \<Rightarrow> nat \<Rightarrow> 'q net
     \<Rightarrow> (jsError + 'b response) \<times> 'q net \<Rightarrow> nat \<Rightarrow> bool" where
  "loop_trace fetch req cfg attempt w r k \<longleftrightarrow>
     1 \<le> k \<and> attempt + k \<le> retries cfg + 1 \<and>
     snd r = w\<lparr>sent := sent w @ replicate k req,
               slept := slept w @ map (backoff cfg) [attempt ..< attempt + k - 1]\<rparr> \<and>
     fst r = outcome_result (attempt_outcome fetch req w (k - 1)) \<and>
     (\<forall>i < k - 1. retryable_outcome (attempt_outcome fetch req w i)) \<and>
     (attempt + k = retries cfg + 1 \<or> \<not> retryable_outcome (attempt_outcome fetch req w (k - 1)))"

text \<open>The number of calls of \<open>fetch\<close> between two states of the log.\<close>

definition attempts_made :: "'q net \<Rightarrow> 'q net \<Rightarrow> nat" where
  "attempts_made w w' = length (sent w') - length (sent w)"

text \<open>
  A network that answers 500 to the first two requests and 200 from the third on.
\<close>

definition scenarioA :: "(unit, unit) network" where
  "scenarioA reqs = Responded \<lparr>status = (if length reqs \<le> 2 then 500 else 200), body = ()\<rparr>"

section \<open>Model registry (modelConfig.js) and its lookup (server.js)\<close>

record capabilities =
  reasoning :: bool
  webSearch :: bool
  vision :: bool
  canvas :: bool

record modelConfig =
  provider :: jstring
  model :: jstring
  capabilities :: capabilities

definition openai_model :: "string \<Rightarrow> bool \<Rightarrow> bool \<Rightarrow> jstring \<times> modelConfig" where
  "openai_model name r v =
     (ascii name, \<lparr>provider = ascii ''openai'', model = ascii name,
        capabilities = \<lparr>reasoning = r, webSearch = True, vision = v, canvas = True\<rparr>\<rparr>)"

definition deepseek_model :: "string \<Rightarrow> bool \<Rightarrow> jstring \<times> modelConfig" where
  "deepseek_model name r =
     (ascii name, \<lparr>provider = ascii ''deepseek'', model = ascii name,
        capabilities = \<lparr>reasoning = r, webSearch = False, vision = False, canvas = False\<rparr>\<rparr>)"

definition gemini_model :: "string \<Rightarrow> jstring \<times> modelConfig" where
  "gemini_model name =
     (ascii name, \<lparr>provider = ascii ''gemini'', model = ascii name,
        capabilities = \<lparr>reasoning = False, webSearch = False, vision = True, canvas = False\<rparr>\<rparr>)"

text \<open>
  The eight entries of \<open>MODEL_MAP\<close>, in the order of the source. Every OpenAI entry has
  \<open>webSearch: true\<close> and \<open>canvas: true\<close>; every DeepSeek entry has \<open>webSearch\<close>,
  \<open>vision\<close> and \<open>canvas\<close> false; every Gemini entry has only \<open>vision\<close> true.
\<close>

definition MODEL_MAP :: "(jstring \<times> modelConfig) list" where
  "MODEL_MAP =
     [openai_model ''gpt-5'' True True,
      openai_model ''gpt-5.1'' True True,
      openai_model ''gpt-5.1-codex'' True False,
      openai_model ''gpt-5-mini'' False True,
      deepseek_model ''deepseek-chat'' False,
      deepseek_model ''deepseek-reasoner'' True,
      gemini_model ''gemini-1.5-pro'',
      gemini_model ''gemini-3-pro-preview'']"

text \<open>
  \<open>MODEL_MAP\<close> is an object literal, so \<open>MODEL_MAP[modelId]\<close> finds, besides the eight
  entries, the members that every object inherits from \<open>Object.prototype\<close>: eleven
  functions and the accessor \<open>__proto__\<close>, which gives the prototype object. All
  twelve values are truthy, and none has a \<open>provider\<close>, a \<open>model\<close> or
  \<open>capabilities\<close>. A key is a string: any other \<open>modelId\<close> is converted to one, an
  absent \<open>modelId\<close> to the text \<open>undefined\<close>.
\<close>

definition OBJECT_PROTOTYPE_KEYS :: "jstring list" where
  "OBJECT_PROTOTYPE_KEYS =
     map ascii [''constructor'', ''__defineGetter__'', ''__defineSetter__'', ''hasOwnProperty'',
                ''__lookupGetter__'', ''__lookupSetter__'', ''isPrototypeOf'',
                ''propertyIsEnumerable'', ''toString'', ''valueOf'', ''__proto__'',
                ''toLocaleString'']"

datatype member = Entry modelConfig | Inherited jstring

text \<open>\<open>MODEL_MAP[modelId]\<close>: an entry, an inherited member, or \<open>undefined\<close>.\<close>

definition lookup :: "jstring \<Rightarrow> member option" where
  "lookup modelId =
     (case map_of MODEL_MAP modelId of
        Some config \<Rightarrow> Some (Entry config)
      | None \<Rightarrow> if modelId \<in> set OBJECT_PROTOTYPE_KEYS then Some (Inherited modelId) else None)"




section \<open>Provider adapters (modelClients.js)\<close>

record message =
  msg_role :: jstring
  msg_content :: jstring

text \<open>
  \<open>process.env\<close>: a variable is absent or a string; \<open>!apiKey\<close> holds for an absent and
  for an empty one.
\<close>

record env =
  OPENAI_API_KEY :: "jstring option"
  DEEPSEEK_API_KEY :: "jstring option"
  GEMINI_API_KEY :: "jstring option"
  OPENAI_WEB_SEARCH :: "jstring option"
  DEEPSEEK_BASE_URL :: "jstring option"

text \<open>\<open>x || d\<close> for an optional string: the default replaces an absent or empty one.\<close>

fun or_default :: "jstring option \<Rightarrow> jstring \<Rightarrow> jstring" where
  "or_default None d = d"
| "or_default (Some s) d = (if s = [] then d else s)"

text \<open>
  The bodies that are posted. \<open>reasoning\<close> holds the effort when the field is set,
  \<open>tools\<close> the tool types when the field is set.
\<close>

datatype reqBody =
    OpenAIBody (ob_model: jstring) (ob_input: jstring)
               (ob_reasoning: "jstring option") (ob_tools: "jstring list option")
  | DeepSeekBody (db_model: jstring) (db_messages: "message list") (db_temperature: rat)
  | GeminiBody (gb_contents: "message list") (gb_temperature: rat)

record request =
  url :: jstring
  authorization :: "jstring option"
  payload :: reqBody

text \<open>
  A value of the JSON of a provider where the code expects a string: a string, or a
  value of another type (a number, a boolean, \<open>null\<close>, an array, an object), of which
  the code observes the truth value and what \<open>String(v)\<close> makes of it.
\<close>

datatype jsValue = JString jstring | JOther (other_truthy: bool) (other_String: jstring)

fun js_truthy :: "jsValue \<Rightarrow> bool" where
  "js_truthy (JString s) = (s \<noteq> [])"
| "js_truthy (JOther b r) = b"

fun js_String :: "jsValue \<Rightarrow> jstring" where
  "js_String (JString s) = s"
| "js_String (JOther b r) = r"


text \<open>\<open>v || d\<close> for an optional value and a default string: there is no conversion.\<close>

fun value_or :: "jsValue option \<Rightarrow> jstring \<Rightarrow> jsValue" where
  "value_or None d = JString d"
| "value_or (Some v) d = (if js_truthy v then v else JString d)"

text \<open>
  What the adapters read in the JSON of a response: \<open>json.error?.message\<close>,
  \<open>json.output\<close>, \<open>json.choices?.[0]?.message?.content\<close> and
  \<open>json.candidates?.[0]?.content?.parts?.[0]?.text\<close>. An output item is a message with
  its parts (\<open>content\<close>, absent or an array of \<open>{type, text}\<close>), a canvas block with its
  \<open>title\<close> and \<open>content\<close> (each absent or a value of any type), or an item of another
  type.
\<close>

record outputPart =
  part_type :: jstring
  part_text :: "jstring option"

datatype outputItem =
    MessageItem "outputPart list option"
  | CanvasItem "jsValue option" "jsValue option"
  | OtherItem jstring

record providerJson =
  error_message :: "jstring option"
  output_items :: "outputItem list option"
  choice_content :: "jstring option"
  candidate_text :: "jstring option"

text \<open>The body of a response is what \<open>res.json()\<close> gives: the JSON, or a throw.\<close>

type_synonym api = "(request, jsError + providerJson) network"

record canvasBlock =
  cb_title :: jsValue
  cb_content :: jsValue

text \<open>
  What an adapter and the router return: a plain string, an object \<open>{text, canvas}\<close>
  with \<open>canvas\<close> null or \<open>{title, content}\<close> (what the provider gave, or strings
  that the code puts there), or nothing (\<open>undefined\<close> or \<open>null\<close>).
\<close>

datatype modelResult =
    ResString jstring
  | ResObject (res_text: jstring) (res_canvas: "canvasBlock option")
  | ResMissing

text \<open>The default canvas titles \<open>weimingming huabu\<close> ("untitled canvas") and \<open>huabu\<close> ("canvas").\<close>

definition canvas_unnamed :: jstring where
  "canvas_unnamed = [0x672a, 0x547d, 0x540d, 0x753b, 0x5e03]"

definition canvas_default :: jstring where
  "canvas_default = [0x753b, 0x5e03]"

text \<open>
  \<^verbatim>\<open>
  for (const item of outputs) {
    if (item.type === "message") {
      const part = item.content?.find(p => p.type === "output_text");
      if (part?.text) result.text += part.text;
    }
    if (item.type === "canvas") {
      result.canvas = { title: item.title || "<untitled canvas>", content: item.content || "" };
    }
  }
  \<close>
\<close>

fun output_text :: "outputPart list option \<Rightarrow> jstring" where
  "output_text None = []"
| "output_text (Some parts) =
     (case find (\<lambda>p. part_type p = ascii ''output_text'') parts of
        None \<Rightarrow> []
      | Some part \<Rightarrow> or_default (part_text part) [])"

fun extractItem :: "jstring \<times> canvasBlock option \<Rightarrow> outputItem \<Rightarrow> jstring \<times> canvasBlock option" where
  "extractItem (t, c) (MessageItem parts) = (t @ output_text parts, c)"
| "extractItem (t, c) (CanvasItem title content) =
     (t, Some \<lparr>cb_title = value_or title canvas_unnamed, cb_content = value_or content []\<rparr>)"
| "extractItem (t, c) (OtherItem ty) = (t, c)"

definition extractTextAndCanvas :: "providerJson \<Rightarrow> modelResult" where
  "extractTextAndCanvas json =
     (let outputs = (case output_items json of None \<Rightarrow> [] | Some items \<Rightarrow> items);
          result = foldl extractItem ([], None) outputs
      in ResObject (fst result) (snd result))"

text \<open>\<open>new Error(msg)\<close>\<close>

definition Error :: "jstring \<Rightarrow> jsError" where
  "Error msg = JsError (ascii ''Error'') msg"

text \<open>\<open>queshao\<close> ("missing") followed by the name of the environment variable.\<close>

definition missing_key :: "string \<Rightarrow> jsError" where
  "missing_key name = Error ([0x7f3a, 0x5c11, 32] @ ascii name)"

text \<open>\<open>diaoyong shibai\<close> ("call failed") after the name of the provider.\<close>

definition call_failed :: "string \<Rightarrow> jstring" where
  "call_failed name = ascii name @ [32, 0x8c03, 0x7528, 0x5931, 0x8d25]"

definition OPENAI_RESPONSES_URL :: jstring where
  "OPENAI_RESPONSES_URL = ascii ''https://api.openai.com/v1/responses''"

definition DEEPSEEK_BASE :: "env \<Rightarrow> jstring" where
  "DEEPSEEK_BASE e =
     or_default (DEEPSEEK_BASE_URL e) (ascii ''https://api.deepseek.com/chat/completions'')"

definition GEMINI_BASE :: jstring where
  "GEMINI_BASE = ascii ''https://generativelanguage.googleapis.com/v1beta''"

text \<open>The adapters all pass \<open>{ timeoutMs: 60000, retries: 2 }\<close>.\<close>

definition adapter_cfg :: retryCfg where
  "adapter_cfg = default_cfg\<lparr>timeoutMs := 60000, retries := 2\<rparr>"

text \<open>The system hint that \<open>callOpenAI\<close> puts in front of the messages in canvas mode.\<close>

definition CANVAS_SYSTEM_HINT :: jstring where
  "CANVAS_SYSTEM_HINT =
     [10, 0x5f53, 0x4f60, 0x8981, 0x8f93, 0x51fa, 0x4ee5, 0x4e0b, 0x7c7b, 0x578b, 0x5185,
      0x5bb9, 0x65f6, 0xff0c, 0x8bf7, 0x4f7f, 0x7528, 0x3010, 67, 97, 110, 118, 97, 115,
      32, 0x753b, 0x5e03, 0x3011, 0x800c, 0x4e0d, 0x662f, 0x666e, 0x901a, 0x56de, 0x590d,
      0xff1a, 10, 45, 32, 0x4ee3, 0x7801, 0xff08, 0x4efb, 0x4f55, 0x8bed, 0x8a00, 0xff09,
      10, 45, 32, 0x6559, 0x7a0b, 32, 47, 32, 0x6587, 0x6863, 32, 47, 32, 0x65b9, 0x6848,
      0x8bf4, 0x660e, 10, 45, 32, 0x8868, 0x683c, 32, 47, 32, 0x6e05, 0x5355, 32, 47, 32,
      0x957f, 0x6587, 0x672c, 0xff08, 62, 51, 48, 32, 0x884c, 0xff09, 10, 45, 32, 0x7528,
      0x6237, 0x660e, 0x786e, 0x8981, 0x6c42, 0x201c, 0x6574, 0x7406, 0x201d, 0x201c,
      0x751f, 0x6210, 0x6587, 0x4ef6, 0x201d, 0x201c, 0x5199, 0x6210, 0x6587, 0x6863,
      0x201d, 0x7684, 0x5185, 0x5bb9, 10, 10, 67, 97, 110, 118, 97, 115, 32, 0x8981,
      0x6c42, 0xff1a, 10, 45, 32, 0x6709, 0x660e, 0x786e, 0x6807, 0x9898, 10, 45, 32,
      0x5185, 0x5bb9, 0x7ed3, 0x6784, 0x6e05, 0x6670, 10, 45, 32, 0x53ea, 0x653e, 0x6700,
      0x7ec8, 0x7ed3, 0x679c, 0xff0c, 0x4e0d, 0x8981, 0x804a, 0x5929, 0x8bed, 0x6c14, 10,
      45, 32, 0x5185, 0x5bb9, 0x5fc5, 0x987b, 0x5b8c, 0x6574, 0x3001, 0x53ef, 0x590d,
      0x5236, 0x3001, 0x53ef, 0x4fdd, 0x5b58, 0x4e3a, 0x6587, 0x4ef6, 10]"

fun join_lines :: "jstring list \<Rightarrow> jstring" where
  "join_lines [] = []"
| "join_lines [l] = l"
| "join_lines (l # l' # ls) = l @ [10] @ join_lines (l' # ls)"

text \<open>
  The request of \<open>callOpenAI\<close>:
  \<^verbatim>\<open>
  const finalMessages = (outputTarget === "canvas")
    ? ([{ role: "system", content: CANVAS_SYSTEM_HINT }, ...messages]) : messages;
  const inputText = finalMessages.map(m => `${m.role}: ${m.content}`).join("\n");
  const body = { model, input: inputText };
  if (depthMode) body.reasoning = { effort: "medium" };
  if (webSearch === true && process.env.OPENAI_WEB_SEARCH === "1")
    body.tools = [{ type: "web_search" }];
  \<close>
\<close>

definition openai_request ::
  "env \<Rightarrow> jstring \<Rightarrow> jstring \<Rightarrow> message list \<Rightarrow> bool \<Rightarrow> bool \<Rightarrow> jstring \<Rightarrow> request" where
  "openai_request e apiKey mdl messages depthMode wantSearch outputTarget =
     (let finalMessages =
            (if outputTarget = ascii ''canvas''
             then \<lparr>msg_role = ascii ''system'', msg_content = CANVAS_SYSTEM_HINT\<rparr> # messages
             else messages);
          inputText = join_lines (map (\<lambda>m. msg_role m @ ascii '': '' @ msg_content m) finalMessages)
      in \<lparr>url = OPENAI_RESPONSES_URL,
          authorization = Some (ascii ''Bearer '' @ apiKey),
          payload = OpenAIBody mdl inputText
            (if depthMode then Some (ascii ''medium'') else None)
            (if wantSearch \<and> OPENAI_WEB_SEARCH e = Some (ascii ''1'')
             then Some [ascii ''web_search''] else None)\<rparr>)"

text \<open>
  What follows the request in every adapter: \<open>fetchWithRetry\<close>, then
  \<open>const json = await res.json(); if (!res.ok) throw new Error(json.error?.message || fallback)\<close>,
  then the parse of the adapter.
\<close>

definition exchange ::
  "api \<Rightarrow> request \<Rightarrow> jstring \<Rightarrow> (providerJson \<Rightarrow> modelResult) \<Rightarrow> request net
     \<Rightarrow> (jsError + modelResult) \<times> request net" where
  "exchange fetch req fallback parse w =
     (case fetchWithRetry fetch req adapter_cfg w of
        (Inl err, w') \<Rightarrow> (Inl err, w')
      | (Inr res, w') \<Rightarrow>
          (case body res of
             Inl err \<Rightarrow> (Inl err, w')
           | Inr json \<Rightarrow>
               if \<not> ok res then (Inl (Error (or_default (error_message json) fallback)), w')
               else (Inr (parse json), w')))"

definition callOpenAI ::
  "env \<Rightarrow> api \<Rightarrow> jstring \<Rightarrow> message list \<Rightarrow> bool \<Rightarrow> bool \<Rightarrow> jstring \<Rightarrow> request net
     \<Rightarrow> (jsError + modelResult) \<times> request net" where
  "callOpenAI e fetch mdl messages depthMode wantSearch outputTarget w =
     (case OPENAI_API_KEY e of
        None \<Rightarrow> (Inl (missing_key ''OPENAI_API_KEY''), w)
      | Some apiKey \<Rightarrow>
          if apiKey = [] then (Inl (missing_key ''OPENAI_API_KEY''), w)
          else exchange fetch
                 (openai_request e apiKey mdl messages depthMode wantSearch outputTarget)
                 (call_failed ''OpenAI Responses'') extractTextAndCanvas w)"

text \<open>
  \<open>callDeepSeek\<close> posts \<open>{model, messages, temperature: depthMode ? 0.2 : 0.7}\<close> and
  returns \<open>json.choices?.[0]?.message?.content || ""\<close>.
\<close>

definition deepseek_request :: "env \<Rightarrow> jstring \<Rightarrow> jstring \<Rightarrow> message list \<Rightarrow> bool \<Rightarrow> request" where
  "deepseek_request e apiKey mdl messages depthMode =
     \<lparr>url = DEEPSEEK_BASE e,
      authorization = Some (ascii ''Bearer '' @ apiKey),
      payload = DeepSeekBody mdl messages (if depthMode then 2 / 10 else 7 / 10)\<rparr>"

definition callDeepSeek ::
  "env \<Rightarrow> api \<Rightarrow> jstring \<Rightarrow> message list \<Rightarrow> bool \<Rightarrow> request net
     \<Rightarrow> (jsError + modelResult) \<times> request net" where
  "callDeepSeek e fetch mdl messages depthMode w =
     (case DEEPSEEK_API_KEY e of
        None \<Rightarrow> (Inl (missing_key ''DEEPSEEK_API_KEY''), w)
      | Some apiKey \<Rightarrow>
          if apiKey = [] then (Inl (missing_key ''DEEPSEEK_API_KEY''), w)
          else exchange fetch (deepseek_request e apiKey mdl messages depthMode)
                 (call_failed ''DeepSeek'')
                 (\<lambda>json. ResString (or_default (choice_content json) [])) w)"

text \<open>
  \<open>callGemini\<close> drops the system messages, maps every role but \<open>user\<close> to \<open>model\<close>,
  posts the contents with \<open>temperature: depthMode ? 0.2 : 0.8\<close> and returns
  \<open>json.candidates?.[0]?.content?.parts?.[0]?.text || ""\<close>.
\<close>

definition gemini_request :: "jstring \<Rightarrow> jstring \<Rightarrow> message list \<Rightarrow> bool \<Rightarrow> request" where
  "gemini_request apiKey mdl messages depthMode =
     \<lparr>url = GEMINI_BASE @ ascii ''/models/'' @ mdl @ ascii '':generateContent?key='' @ apiKey,
      authorization = None,
      payload = GeminiBody
        (map (\<lambda>m. \<lparr>msg_role = (if msg_role m = ascii ''user'' then ascii ''user'' else ascii ''model''),
                   msg_content = msg_content m\<rparr>)
             (filter (\<lambda>m. msg_role m \<noteq> ascii ''system'') messages))
        (if depthMode then 2 / 10 else 8 / 10)\<rparr>"

definition callGemini ::
  "env \<Rightarrow> api \<Rightarrow> jstring \<Rightarrow> message list \<Rightarrow> bool \<Rightarrow> request net
     \<Rightarrow> (jsError + modelResult) \<times> request net" where
  "callGemini e fetch mdl messages depthMode w =
     (case GEMINI_API_KEY e of
        None \<Rightarrow> (Inl (missing_key ''GEMINI_API_KEY''), w)
      | Some apiKey \<Rightarrow>
          if apiKey = [] then (Inl (missing_key ''GEMINI_API_KEY''), w)
          else exchange fetch (gemini_request apiKey mdl messages depthMode)
                 (call_failed ''Gemini'')
                 (\<lambda>json. ResString (or_default (candidate_text json) [])) w)"

section \<open>Capability router (modelClients.js, callModelWithConfig)\<close>

text \<open>
  The options of a call: \<open>depthMode\<close> and \<open>webSearch\<close> by their truth value,
  \<open>outputTarget\<close> and \<open>canvasTitle\<close> absent or a string.
\<close>

record callOptions =
  opt_depthMode :: bool
  opt_webSearch :: bool
  opt_outputTarget :: "jstring option"
  opt_canvasTitle :: "jstring option"

text \<open>
  The apology \<open>dangqian moxing zanshi bu keyong, qing shaohou chongshi huo qiehuan moxing.\<close>
  ("the current model is unavailable for the moment, retry later or switch model"),
  after a warning sign.
\<close>

definition apology :: jstring where
  "apology =
     [0x26a0, 0xfe0f, 32, 0x5f53, 0x524d, 0x6a21, 0x578b, 0x6682, 0x65f6, 0x4e0d, 0x53ef,
      0x7528, 0xff0c, 0x8bf7, 0x7a0d, 0x540e, 0x91cd, 0x8bd5, 0x6216, 0x5207, 0x6362, 0x6a21,
      0x578b, 0x3002]"

text \<open>
  The body of the \<open>try\<close> up to the result of the adapter:
  \<^verbatim>\<open>
  if (provider === "openai") raw = await callOpenAI(model, messages, {depthMode, webSearch, outputTarget});
  else if (provider === "deepseek") raw = await callDeepSeek(model, messages, depthMode);
  else if (provider === "gemini") raw = await callGemini(model, messages, depthMode);
  else throw new Error("<unknown> provider: " + provider);
  \<close>
\<close>

definition callProvider ::
  "env \<Rightarrow> api \<Rightarrow> modelConfig \<Rightarrow> message list \<Rightarrow> bool \<Rightarrow> bool \<Rightarrow> jstring \<Rightarrow> request net
     \<Rightarrow> (jsError + modelResult) \<times> request net" where
  "callProvider e fetch config messages depthMode wantSearch outputTarget w =
     (if provider config = ascii ''openai''
      then callOpenAI e fetch (model config) messages depthMode wantSearch outputTarget w
      else if provider config = ascii ''deepseek''
      then callDeepSeek e fetch (model config) messages depthMode w
      else if provider config = ascii ''gemini''
      then callGemini e fetch (model config) messages depthMode w
      else (Inl (Error ([0x672a, 0x77e5, 32] @ ascii ''provider: '' @ provider config)), w))"

text \<open>
  \<^verbatim>\<open>
  if (outputTarget === "canvas") {
    if (typeof raw === "string") return { text: "", canvas: { title: canvasTitle, content: raw } };
    if (raw && typeof raw === "object") {
      if (raw.canvas && (raw.canvas.content || raw.canvas.title)) return raw;
      const t = raw.text || "";
      return { text: "", canvas: { title: canvasTitle, content: t } };
    }
    return { text: "", canvas: { title: canvasTitle, content: "" } };
  }
  return raw;
  \<close>
\<close>

fun normalizeCanvas :: "jstring \<Rightarrow> modelResult \<Rightarrow> modelResult" where
  "normalizeCanvas canvasTitle (ResString raw) =
     ResObject [] (Some \<lparr>cb_title = JString canvasTitle, cb_content = JString raw\<rparr>)"
| "normalizeCanvas canvasTitle (ResObject t (Some c)) =
     (if js_truthy (cb_content c) \<or> js_truthy (cb_title c) then ResObject t (Some c)
      else ResObject [] (Some \<lparr>cb_title = JString canvasTitle, cb_content = JString t\<rparr>))"
| "normalizeCanvas canvasTitle (ResObject t None) =
     ResObject [] (Some \<lparr>cb_title = JString canvasTitle, cb_content = JString t\<rparr>)"
| "normalizeCanvas canvasTitle ResMissing =
     ResObject [] (Some \<lparr>cb_title = JString canvasTitle, cb_content = JString []\<rparr>)"

text \<open>
  The \<open>catch\<close>:
  \<^verbatim>\<open>
  const msg = "<apology>";
  if (outputTarget === "canvas") return { text: "", canvas: { title: canvasTitle, content: msg } };
  return msg;
  \<close>
\<close>

definition softFailure :: "jstring \<Rightarrow> jstring \<Rightarrow> modelResult" where
  "softFailure outputTarget canvasTitle =
     (if outputTarget = ascii ''canvas''
      then ResObject [] (Some \<lparr>cb_title = JString canvasTitle, cb_content = JString apology\<rparr>)
      else ResString apology)"

text \<open>
  \<^verbatim>\<open>
  const depthMode = !!(options.depthMode && capabilities?.reasoning === true);
  const webSearch = !!(options.webSearch && capabilities?.webSearch === true);
  const outputTarget = options.outputTarget || "chat";
  const canvasTitle = options.canvasTitle || "<canvas>";
  try { ... } catch (err) { ... }
  \<close>
  The result is \<open>Inr\<close> of what is returned; \<open>Inl\<close> would be a throw that leaves the
  function.
\<close>

definition callModelWithConfig ::
  "env \<Rightarrow> api \<Rightarrow> modelConfig \<Rightarrow> message list \<Rightarrow> callOptions \<Rightarrow> request net
     \<Rightarrow> (jsError + modelResult) \<times> request net" where
  "callModelWithConfig e fetch config messages options w =
     (let depthMode = (opt_depthMode options \<and> reasoning (capabilities config));
          wantSearch = (opt_webSearch options \<and> webSearch (capabilities config));
          outputTarget = or_default (opt_outputTarget options) (ascii ''chat'');
          canvasTitle = or_default (opt_canvasTitle options) canvas_default
      in case callProvider e fetch config messages depthMode wantSearch outputTarget w of
           (Inr raw, w') \<Rightarrow>
             (Inr (if outputTarget = ascii ''canvas'' then normalizeCanvas canvasTitle raw
                   else raw), w')
         | (Inl err, w') \<Rightarrow> (Inr (softFailure outputTarget canvasTitle), w'))"

text \<open>
  What a posted body asks for. Reasoning is asked for by the \<open>reasoning\<close> field of the
  OpenAI body and by the low temperature 0.2 of the two other bodies; web search by the
  \<open>tools\<close> field of the OpenAI body.
\<close>

fun asks_reasoning :: "reqBody \<Rightarrow> bool" where
  "asks_reasoning (OpenAIBody m i r t) = (r \<noteq> None)"
| "asks_reasoning (DeepSeekBody m ms t) = (t = 2 / 10)"
| "asks_reasoning (GeminiBody cs t) = (t = 2 / 10)"

fun asks_webSearch :: "reqBody \<Rightarrow> bool" where
  "asks_webSearch (OpenAIBody m i r t) = (t \<noteq> None)"
| "asks_webSearch (DeepSeekBody m ms t) = False"
| "asks_webSearch (GeminiBody cs t) = False"

text \<open>The requests that a call added to the log.\<close>

definition requests_of :: "'q net \<Rightarrow> 'q net \<Rightarrow> 'q list" where
  "requests_of w w' = drop (length (sent w)) (sent w')"

fun has_canvas :: "modelResult \<Rightarrow> bool" where
  "has_canvas (ResObject t (Some c)) = True"
| "has_canvas r = False"

text \<open>Networks and an environment for concrete runs.\<close>

definition json_empty :: providerJson where
  "json_empty = \<lparr>error_message = None, output_items = None, choice_content = None,
                  candidate_text = None\<rparr>"

definition always_status :: "nat \<Rightarrow> providerJson \<Rightarrow> api" where
  "always_status st json reqs = Responded \<lparr>status = st, body = Inr json\<rparr>"


definition all_keys :: env where
  "all_keys = \<lparr>OPENAI_API_KEY = Some (ascii ''k1''), DEEPSEEK_API_KEY = Some (ascii ''k2''),
               GEMINI_API_KEY = Some (ascii ''k3''), OPENAI_WEB_SEARCH = Some (ascii ''1''),
               DEEPSEEK_BASE_URL = None\<rparr>"

definition w0 :: "request net" where
  "w0 = \<lparr>sent = [], slept = []\<rparr>"

definition cfg_of :: "string \<Rightarrow> modelConfig" where
  "cfg_of name = the (map_of MODEL_MAP (ascii name))"

definition canvas_opts :: callOptions where
  "canvas_opts = \<lparr>opt_depthMode = True, opt_webSearch = True,
                  opt_outputTarget = Some (ascii ''canvas''), opt_canvasTitle = None\<rparr>"

definition hi_json :: providerJson where
  "hi_json = json_empty\<lparr>choice_content := Some (ascii ''hi'')\<rparr>"




section \<open>Canvas state machine (server.js, handler of POST /api/chats/:id/messages)\<close>

definition CANVAS_PREFIX :: jstring where
  "CANVAS_PREFIX = ascii ''__CANVAS__''"

text \<open>
  What the handler reads in a parsed canvas marker: \<open>obj.id\<close>, \<open>obj.title\<close> and
  \<open>obj.content\<close>, each absent or a string (\<open>cj_content\<close> is \<open>None\<close> when
  \<open>typeof obj.content\<close> is not \<open>string\<close>). \<open>JSON.parse\<close> is a parameter: it throws
  (\<open>Inl\<close>), gives \<open>null\<close> (\<open>None\<close>) or gives an object.
\<close>

record canvasJson =
  cj_id :: "jstring option"
  cj_title :: "jstring option"
  cj_content :: "jstring option"

type_synonym json_parse = "jstring \<Rightarrow> jsError + canvasJson option"

text \<open>
  \<^verbatim>\<open>
  function safeParseCanvasSystem(content) {
    if (!content || typeof content !== 'string') return null;
    if (!content.startsWith(CANVAS_PREFIX)) return null;
    try {
      const json = content.slice(CANVAS_PREFIX.length);
      const obj = JSON.parse(json);
      if (obj && typeof obj.content === 'string') return obj;
    } catch { }
    return null;
  }
  \<close>
\<close>

definition safeParseCanvasSystem :: "json_parse \<Rightarrow> jstring \<Rightarrow> canvasJson option" where
  "safeParseCanvasSystem JSON_parse content =
     (if content = [] then None
      else if \<not> startsWith content CANVAS_PREFIX then None
      else (case JSON_parse (drop (length CANVAS_PREFIX) content) of
              Inl err \<Rightarrow> None
            | Inr None \<Rightarrow> None
            | Inr (Some obj) \<Rightarrow> if cj_content obj \<noteq> None then Some obj else None))"

text \<open>
  The stored turns of the conversation in the order of \<open>created_at\<close>. The query
  \<open>role = 'system' AND content LIKE '__CANVAS__%' ORDER BY created_at DESC LIMIT 1\<close>
  gives the content of the last turn that the pattern matches, if there is one. In the
  pattern each \<open>_\<close> stands for any one character and \<open>%\<close> for any rest, so it matches
  the contents of at least ten characters whose third to eighth are \<open>CANVAS\<close> (compared
  here as they are written; the markers that the handler stores start with the prefix).
\<close>

definition like_canvas :: "jstring \<Rightarrow> bool" where
  "like_canvas content \<longleftrightarrow> 10 \<le> length content \<and> take 6 (drop 2 content) = ascii ''CANVAS''"

definition isCanvasMarker :: "message \<Rightarrow> bool" where
  "isCanvasMarker m \<longleftrightarrow> msg_role m = ascii ''system'' \<and> like_canvas (msg_content m)"

definition latestCanvasRow :: "message list \<Rightarrow> jstring option" where
  "latestCanvasRow history =
     (case filter isCanvasMarker (rev history) of [] \<Rightarrow> None | m # ms \<Rightarrow> Some (msg_content m))"

text \<open>
  \<^verbatim>\<open>
  let existingCanvas = null;
  if (target === 'canvas' && !wantNewCanvas) {
    const [crows] = await pool.query(...);
    if (crows && crows.length > 0)
      existingCanvas = safeParseCanvasSystem(String(crows[0].content || ''));
  }
  const canvasTitle = (existingCanvas && existingCanvas.title)
    ? String(existingCanvas.title) : '<canvas>';
  \<close>
\<close>

definition findExistingCanvas ::
  "json_parse \<Rightarrow> jstring \<Rightarrow> bool \<Rightarrow> message list \<Rightarrow> canvasJson option" where
  "findExistingCanvas JSON_parse target wantNewCanvas history =
     (if target = ascii ''canvas'' \<and> \<not> wantNewCanvas
      then (case latestCanvasRow history of
              None \<Rightarrow> None
            | Some content \<Rightarrow> safeParseCanvasSystem JSON_parse content)
      else None)"

text \<open>The truth value of an optional string: present and not empty.\<close>

fun truthy :: "jstring option \<Rightarrow> bool" where
  "truthy None = False"
| "truthy (Some s) = (s \<noteq> [])"

definition canvasTitle_of :: "canvasJson option \<Rightarrow> jstring" where
  "canvasTitle_of existingCanvas =
     (case existingCanvas of
        None \<Rightarrow> canvas_default
      | Some c \<Rightarrow> if truthy (cj_title c) then the (cj_title c) else canvas_default)"

text \<open>
  \<^verbatim>\<open>
  if (typeof result === 'string') { replyText = result; }
  else { replyText = result.text || ''; canvas = result.canvas || null; }
  \<close>
  Reading \<open>result.text\<close> of a missing result throws a \<open>TypeError\<close>.
\<close>

fun replyParts :: "modelResult \<Rightarrow> jsError + jstring \<times> canvasBlock option" where
  "replyParts (ResString s) = Inr (s, None)"
| "replyParts (ResObject t c) = Inr (t, c)"
| "replyParts ResMissing = Inl (JsError (ascii ''TypeError'') (ascii ''Cannot read properties''))"

record canvasDoc =
  doc_id :: jstring
  doc_title :: jstring
  doc_content :: jstring
  doc_updatedAt :: jstring

text \<open>
  \<^verbatim>\<open>
  const chunk = (canvas && canvas.content) ? String(canvas.content) : String(replyText || '');
  const base = (!wantNewCanvas && existingCanvas && existingCanvas.content)
    ? String(existingCanvas.content) : '';
  const merged = base ? (base + '\n\n' + chunk).trim() : chunk.trim();
  const canvasObj = {
    id: (existingCanvas && existingCanvas.id && !wantNewCanvas)
      ? String(existingCanvas.id) : crypto.randomUUID(),
    title: canvasTitle, content: merged, updatedAt: new Date().toISOString()
  };
  \<close>
  The generated identifier and the time stamp are parameters.
\<close>

definition chunk_of :: "jstring \<Rightarrow> canvasBlock option \<Rightarrow> jstring" where
  "chunk_of replyText cv =
     (case cv of
        None \<Rightarrow> replyText
      | Some c \<Rightarrow> if js_truthy (cb_content c) then js_String (cb_content c) else replyText)"

definition base_of :: "bool \<Rightarrow> canvasJson option \<Rightarrow> jstring" where
  "base_of wantNewCanvas existingCanvas =
     (case existingCanvas of
        None \<Rightarrow> []
      | Some c \<Rightarrow> if \<not> wantNewCanvas \<and> truthy (cj_content c) then the (cj_content c) else [])"

definition merge_canvas :: "jstring \<Rightarrow> jstring \<Rightarrow> jstring" where
  "merge_canvas base chunk = (if base \<noteq> [] then trim (base @ [10, 10] @ chunk) else trim chunk)"

definition canvasObj_of ::
  "bool \<Rightarrow> canvasJson option \<Rightarrow> jstring \<Rightarrow> jstring \<Rightarrow> canvasBlock option \<Rightarrow> jstring \<Rightarrow> jstring
     \<Rightarrow> canvasDoc" where
  "canvasObj_of wantNewCanvas existingCanvas canvasTitle replyText cv randomUUID now =
     \<lparr>doc_id =
        (case existingCanvas of
           None \<Rightarrow> randomUUID
         | Some c \<Rightarrow> if truthy (cj_id c) \<and> \<not> wantNewCanvas then the (cj_id c) else randomUUID),
      doc_title = canvasTitle,
      doc_content = merge_canvas (base_of wantNewCanvas existingCanvas) (chunk_of replyText cv),
      doc_updatedAt = now\<rparr>"

text \<open>
  The canvas part of one canvas-mode turn: the prior canvas is looked up in the history,
  the title is taken from it, the model is called (its result is \<open>result\<close>), and the
  canvas of the turn is written.
\<close>

definition canvasTurn ::
  "json_parse \<Rightarrow> message list \<Rightarrow> bool \<Rightarrow> modelResult \<Rightarrow> jstring \<Rightarrow> jstring
     \<Rightarrow> jsError + canvasDoc" where
  "canvasTurn JSON_parse history wantNewCanvas result randomUUID now =
     (let existingCanvas = findExistingCanvas JSON_parse (ascii ''canvas'') wantNewCanvas history;
          canvasTitle = canvasTitle_of existingCanvas
      in case replyParts result of
           Inl err \<Rightarrow> Inl err
         | Inr (replyText, cv) \<Rightarrow>
             Inr (canvasObj_of wantNewCanvas existingCanvas canvasTitle replyText cv
                    randomUUID now))"

text \<open>The chunk that a result of the model contributes to the canvas.\<close>

definition result_chunk :: "modelResult \<Rightarrow> jstring" where
  "result_chunk result =
     (case replyParts result of Inl err \<Rightarrow> [] | Inr (replyText, cv) \<Rightarrow> chunk_of replyText cv)"



text \<open>A parser for concrete runs: it knows one marker payload.\<close>

definition parse_one :: "jstring \<Rightarrow> canvasJson \<Rightarrow> json_parse" where
  "parse_one text obj s = (if s = text then Inr (Some obj) else Inl (JsError (ascii ''SyntaxError'') []))"

text \<open>A stored canvas with content \<open>X\<close>, its marker, and results of the model.\<close>

definition canvas_X :: canvasJson where
  "canvas_X = \<lparr>cj_id = Some (ascii ''id-1''), cj_title = Some (ascii ''Notes''),
               cj_content = Some (ascii ''X'')\<rparr>"

definition history_X :: "message list" where
  "history_X = [\<lparr>msg_role = ascii ''user'', msg_content = ascii ''write''\<rparr>,
                \<lparr>msg_role = ascii ''system'', msg_content = CANVAS_PREFIX @ ascii ''{X}''\<rparr>]"

definition result_Y :: modelResult where
  "result_Y = ResObject [] (Some \<lparr>cb_title = JString (ascii ''Notes''),
                                      cb_content = JString (ascii ''Y'')\<rparr>)"


section \<open>Archive and document extractor (server.js, analyzeFileBuffer)\<close>

text \<open>
  The libraries are parameters, over an abstract type of buffers: \<open>buffer.length\<close>,
  \<open>buffer.toString('utf8')\<close>, \<open>path.extname(fileName).toLowerCase()\<close>,
  \<open>unzipper.Open.buffer(buffer)\<close> with the \<open>files\<close> of the directory, \<open>pdf(buffer)\<close> with
  the \<open>text\<close> of its result, the first sheet of \<open>xlsx.read(buffer)\<close> rendered by
  \<open>JSON.stringify(json, null, 2)\<close>, and \<open>callVisionOpenAI(buffer, mimeType)\<close>. Each of
  them returns or throws (\<open>Inl\<close>). An entry of an archive has its \<open>type\<close>, its \<open>path\<close>
  and what \<open>f.buffer()\<close> gives.
\<close>

record 'b zipEntry =
  entry_type :: jstring
  entry_path :: jstring
  entry_buffer :: "jsError + 'b"

record 'b libs =
  buf_length :: "'b \<Rightarrow> nat"
  toString_utf8 :: "'b \<Rightarrow> jsError + jstring"
  lower_extname :: "jstring \<Rightarrow> jstring"
  unzip_open :: "'b \<Rightarrow> jsError + 'b zipEntry list"
  pdf_text :: "'b \<Rightarrow> jsError + jstring"
  xlsx_json :: "'b \<Rightarrow> jsError + jstring"
  callVisionOpenAI :: "'b \<Rightarrow> jstring \<Rightarrow> jsError + jstring"

definition MAX_ZIP_FILES :: nat where
  "MAX_ZIP_FILES = 200"

definition MAX_ZIP_TOTAL_BYTES :: nat where
  "MAX_ZIP_TOTAL_BYTES = 20 * 1024 * 1024"

text \<open>
  \<open>zipState\<close> is shared by reference by all the calls of one extraction, so it is
  threaded through them. \<open>files\<close> and \<open>bytes\<close> are the two counters of the source.
  \<open>expanded\<close> is not in the source: it logs, with its size, every entry that is handed
  to the recursive call, and nothing reads it.
\<close>

record zipState =
  files :: nat
  bytes :: nat
  expanded :: "(jstring \<times> nat) list"

definition zipState0 :: zipState where
  "zipState0 = \<lparr>files = 0, bytes = 0, expanded = []\<rparr>"

text \<open>
  The texts of the source, in the order of their use:
  \<open>\n[shendu chaoguo xianzhi, lueguo: ${fileName}]\n\<close> ("depth over the limit, skipped"),
  \<open>\n<ZIP yasuobao: ${fileName}>\n\<close> ("ZIP archive", in lenticular brackets),
  \<open>\n[ZIP wenjianshu chaoguo xianzhi (>${MAX_ZIP_FILES}), tingzhi jiexi]\n\<close>
  ("number of ZIP files over the limit, parsing stopped"),
  \<open>\n[ZIP jieya zong zijie chaoguo xianzhi (>${MAX_ZIP_TOTAL_BYTES}), tingzhi jiexi]\n\<close>
  ("total unzipped bytes over the limit, parsing stopped"),
  \<open>\n---\n[${f.path}]\n\<close>,
  \<open>\n[<kind>: ${fileName}]\n\<close> with the kind \<open>wenben wenjian\<close> ("text file"),
  \<open>PDF wenjian\<close>, \<open>Excel wenjian\<close>, \<open>tupian wenjian\<close> ("image file") or \<open>wenjian\<close>
  ("file"), \<open>[tupian jiexi shibai: ${message}]\n\<close> ("image analysis failed") and
  \<open>[erjinzhi neirong, wei jiexi]\n\<close> ("binary content, not parsed").
\<close>

definition depth_note :: "jstring \<Rightarrow> jstring" where
  "depth_note fileName =
     [10, 91, 0x6df1, 0x5ea6, 0x8d85, 0x8fc7, 0x9650, 0x5236, 0xff0c, 0x7565, 0x8fc7, 58, 32]
     @ fileName @ [93, 10]"

definition zip_header :: "jstring \<Rightarrow> jstring" where
  "zip_header fileName =
     [10, 0x3010, 90, 73, 80, 32, 0x538b, 0x7f29, 0x5305, 58, 32] @ fileName @ [0x3011, 10]"

definition files_note :: jstring where
  "files_note =
     [10, 91, 90, 73, 80, 32, 0x6587, 0x4ef6, 0x6570, 0x8d85, 0x8fc7, 0x9650, 0x5236, 0xff08, 62]
     @ digits MAX_ZIP_FILES @ [0xff09, 0xff0c, 0x505c, 0x6b62, 0x89e3, 0x6790, 93, 10]"

definition bytes_note :: jstring where
  "bytes_note =
     [10, 91, 90, 73, 80, 32, 0x89e3, 0x538b, 0x603b, 0x5b57, 0x8282, 0x8d85, 0x8fc7, 0x9650,
      0x5236, 0xff08, 62]
     @ digits MAX_ZIP_TOTAL_BYTES @ [0xff09, 0xff0c, 0x505c, 0x6b62, 0x89e3, 0x6790, 93, 10]"

definition entry_header :: "jstring \<Rightarrow> jstring" where
  "entry_header p = [10, 45, 45, 45, 10, 91] @ p @ [93, 10]"

definition kind_header :: "jstring \<Rightarrow> jstring \<Rightarrow> jstring" where
  "kind_header kind fileName = [10, 91] @ kind @ [58, 32] @ fileName @ [93, 10]"

definition text_kind :: jstring where
  "text_kind = [0x6587, 0x672c, 0x6587, 0x4ef6]"

definition pdf_kind :: jstring where
  "pdf_kind = [80, 68, 70, 32, 0x6587, 0x4ef6]"

definition excel_kind :: jstring where
  "excel_kind = [69, 120, 99, 101, 108, 32, 0x6587, 0x4ef6]"

definition image_kind :: jstring where
  "image_kind = [0x56fe, 0x7247, 0x6587, 0x4ef6]"

definition file_kind :: jstring where
  "file_kind = [0x6587, 0x4ef6]"

definition image_failed :: "jstring \<Rightarrow> jstring" where
  "image_failed msg =
     [91, 0x56fe, 0x7247, 0x89e3, 0x6790, 0x5931, 0x8d25, 0xff1a] @ msg @ [93, 10]"

definition binary_note :: jstring where
  "binary_note = [91, 0x4e8c, 0x8fdb, 0x5236, 0x5185, 0x5bb9, 0xff0c, 0x672a, 0x89e3, 0x6790, 93, 10]"

text \<open>
  \<^verbatim>\<open>
  async function analyzeFileBuffer(fileName, buffer, depth = 0, zipState = { files: 0, bytes: 0 }) {
    if (depth > 3) return `\n[<depth note>: ${fileName}]\n`;
    const ext = path.extname(fileName).toLowerCase();
    if (ext === '.zip') {
      let out = `\n<ZIP archive: ${fileName}>\n`;
      const directory = await unzipper.Open.buffer(buffer);
      for (const f of directory.files) {
        if (f.type !== 'File') continue;
        zipState.files += 1;
        if (zipState.files > MAX_ZIP_FILES) { out += `<files note>`; break; }
        const childBuf = await f.buffer();
        zipState.bytes += childBuf.length;
        if (zipState.bytes > MAX_ZIP_TOTAL_BYTES) { out += `<bytes note>`; break; }
        out += `\n---\n[${f.path}]\n`;
        out += await analyzeFileBuffer(f.path, childBuf, depth + 1, zipState);
      }
      return out;
    }
    if (['.txt', '.md', '.json', '.log', '.csv'].includes(ext))
      return `\n[<text file>: ${fileName}]\n${buffer.toString('utf8')}\n`;
    if (ext === '.pdf') { const data = await pdf(buffer); return `\n[PDF ...: ${fileName}]\n${data.text}\n`; }
    if (ext === '.xlsx') { ...; return `\n[Excel ...: ${fileName}]\n${JSON.stringify(json, null, 2)}\n`; }
    if (['.jpg', '.jpeg', '.png', '.webp'].includes(ext)) {
      const mimeType = ext === '.jpg' ? 'image/jpeg' : `image/${ext.replace('.', '')}`;
      try { const vision = await callVisionOpenAI(buffer, mimeType);
            return `\n[<image file>: ${fileName}]\n${vision}\n`; }
      catch (e) { return `\n[<image file>: ${fileName}]\n[<image failed>: ${String(e?.message || e)}]\n`; }
    }
    try { return `\n[<file>: ${fileName}]\n${buffer.toString('utf8')}\n`; }
    catch { return `\n[<file>: ${fileName}]\n[<binary note>]\n`; }
  }
  \<close>
  \<open>zipLoop\<close> is the \<open>for\<close> loop over the entries that are left, with the text \<open>out\<close>
  accumulated so far. An \<open>Inl\<close> is a throw that leaves the function.
\<close>

definition mimeType_of :: "jstring \<Rightarrow> jstring" where
  "mimeType_of ext =
     (if ext = ascii ''.jpg'' then ascii ''image/jpeg'' else ascii ''image/'' @ drop 1 ext)"

function analyzeFileBuffer ::
    "'b libs \<Rightarrow> jstring \<Rightarrow> 'b \<Rightarrow> nat \<Rightarrow> zipState \<Rightarrow> (jsError + jstring) \<times> zipState"
  and zipLoop ::
    "'b libs \<Rightarrow> nat \<Rightarrow> 'b zipEntry list \<Rightarrow> jstring \<Rightarrow> zipState
       \<Rightarrow> (jsError + jstring) \<times> zipState"
where
  "analyzeFileBuffer L fileName buffer depth st =
     (if depth > 3 then (Inr (depth_note fileName), st)
      else if lower_extname L fileName = ascii ''.zip'' then
        (case unzip_open L buffer of
           Inl err \<Rightarrow> (Inl err, st)
         | Inr directory_files \<Rightarrow> zipLoop L depth directory_files (zip_header fileName) st)
      else if lower_extname L fileName
                \<in> set (map ascii [''.txt'', ''.md'', ''.json'', ''.log'', ''.csv'']) then
        (case toString_utf8 L buffer of
           Inl err \<Rightarrow> (Inl err, st)
         | Inr t \<Rightarrow> (Inr (kind_header text_kind fileName @ t @ [10]), st))
      else if lower_extname L fileName = ascii ''.pdf'' then
        (case pdf_text L buffer of
           Inl err \<Rightarrow> (Inl err, st)
         | Inr t \<Rightarrow> (Inr (kind_header pdf_kind fileName @ t @ [10]), st))
      else if lower_extname L fileName = ascii ''.xlsx'' then
        (case xlsx_json L buffer of
           Inl err \<Rightarrow> (Inl err, st)
         | Inr t \<Rightarrow> (Inr (kind_header excel_kind fileName @ t @ [10]), st))
      else if lower_extname L fileName
                \<in> set (map ascii [''.jpg'', ''.jpeg'', ''.png'', ''.webp'']) then
        (case callVisionOpenAI L buffer (mimeType_of (lower_extname L fileName)) of
           Inr visionText \<Rightarrow> (Inr (kind_header image_kind fileName @ visionText @ [10]), st)
         | Inl e \<Rightarrow> (Inr (kind_header image_kind fileName @ image_failed (errorText e)), st))
      else
        (case toString_utf8 L buffer of
           Inr t \<Rightarrow> (Inr (kind_header file_kind fileName @ t @ [10]), st)
         | Inl e \<Rightarrow> (Inr (kind_header file_kind fileName @ binary_note), st)))"
| "zipLoop L depth [] out st = (Inr out, st)"
| "zipLoop L depth (f # fs) out st =
     (if entry_type f \<noteq> ascii ''File'' then zipLoop L depth fs out st
      else if files st + 1 > MAX_ZIP_FILES
      then (Inr (out @ files_note), st\<lparr>files := files st + 1\<rparr>)
      else
        (case entry_buffer f of
           Inl err \<Rightarrow> (Inl err, st\<lparr>files := files st + 1\<rparr>)
         | Inr childBuf \<Rightarrow>
             if bytes st + buf_length L childBuf > MAX_ZIP_TOTAL_BYTES
             then (Inr (out @ bytes_note),
                   st\<lparr>files := files st + 1, bytes := bytes st + buf_length L childBuf\<rparr>)
             else
               (case analyzeFileBuffer L (entry_path f) childBuf (depth + 1)
                       (st\<lparr>files := files st + 1, bytes := bytes st + buf_length L childBuf,
                           expanded := expanded st @ [(entry_path f, buf_length L childBuf)]\<rparr>) of
                  (Inl err, st') \<Rightarrow> (Inl err, st')
                | (Inr t, st') \<Rightarrow>
                    zipLoop L depth fs (out @ entry_header (entry_path f) @ t) st')))"
  by pat_completeness auto
termination
  by (relation "inv_image (less_than <*lex*> less_than)
        (\<lambda>x. case x of
           Inl (L, fileName, buffer, depth, st) \<Rightarrow>
             (if depth > 3 then 0 else 2 * (4 - depth) + 2, 0)
         | Inr (L, depth, fs, out, st) \<Rightarrow>
             (if depth > 3 then 1 else 2 * (4 - depth) + 1, length fs))")
     auto

declare analyzeFileBuffer.simps [simp del]

text \<open>The call of the upload handler: \<open>analyzeFileBuffer(req.file.originalname, buffer, 0)\<close>.\<close>

definition analyzeUpload :: "'b libs \<Rightarrow> jstring \<Rightarrow> 'b \<Rightarrow> (jsError + jstring) \<times> zipState" where
  "analyzeUpload L fileName buffer = analyzeFileBuffer L fileName buffer 0 zipState0"


text \<open>
  Buffers for concrete runs: a file with its length and its text, an archive with its
  length and its entries (all of type \<open>File\<close>), and a file that no parser accepts. The
  extension is taken from the last dot of the name (the names used are lower case).
\<close>

datatype blob = Data nat jstring | Zip nat "(jstring \<times> blob) list" | Broken nat

fun blob_length :: "blob \<Rightarrow> nat" where
  "blob_length (Data n s) = n"
| "blob_length (Zip n es) = n"
| "blob_length (Broken n) = n"

fun blob_text :: "string \<Rightarrow> blob \<Rightarrow> jsError + jstring" where
  "blob_text what (Data n s) = Inr s"
| "blob_text what (Zip n es) = Inl (Error (ascii what))"
| "blob_text what (Broken n) = Inl (Error (ascii what))"

fun blob_entries :: "blob \<Rightarrow> jsError + blob zipEntry list" where
  "blob_entries (Zip n es) =
     Inr (map (\<lambda>(p, b). \<lparr>entry_type = ascii ''File'', entry_path = p, entry_buffer = Inr b\<rparr>) es)"
| "blob_entries (Data n s) = Inl (Error (ascii ''invalid zip''))"
| "blob_entries (Broken n) = Inl (Error (ascii ''invalid zip''))"

definition last_dot_ext :: "jstring \<Rightarrow> jstring" where
  "last_dot_ext name =
     (let r = takeWhile (\<lambda>c. c \<noteq> 46) (rev name)
      in if length r = length name then [] else 46 # rev r)"

definition blob_libs :: "blob libs" where
  "blob_libs =
     \<lparr>buf_length = blob_length,
      toString_utf8 = blob_text ''invalid string length'',
      lower_extname = last_dot_ext,
      unzip_open = blob_entries,
      pdf_text = blob_text ''Invalid PDF structure'',
      xlsx_json = blob_text ''invalid workbook'',
      callVisionOpenAI = (\<lambda>b mime. blob_text ''vision call failed'' b)\<rparr>"


definition small_zip :: blob where
  "small_zip = Zip 100 [(ascii ''a.txt'', Data 2 (ascii ''hi''))]"

definition pdf_zip :: blob where
  "pdf_zip = Zip 100 [(ascii ''a.txt'', Data 2 (ascii ''hi'')), (ascii ''b.pdf'', Broken 5)]"



section \<open>Properties of strings and of truncation\<close>

lemma ascii_eq_iff [simp]: "ascii a = ascii b \<longleftrightarrow> a = b"
proof -
  have "inj (of_char :: char \<Rightarrow> nat)" by (rule injI) simp
  then show ?thesis by (simp add: ascii_def inj_map_eq_map)
qed

lemma ascii_eq_Nil [simp]: "ascii a = [] \<longleftrightarrow> a = []"
  by (simp add: ascii_def)

lemma decimal_value_snoc: "decimal_value (ds @ [d]) = 10 * decimal_value ds + (d - 48)"
  by (simp add: decimal_value_def)

lemma digits_states_number: "decimal_value (digits n) = n"
proof (induction n rule: digits.induct)
  case (1 n)
  show ?case
  proof (cases "n < 10")
    case True
    then show ?thesis
      by (subst digits.simps) (simp add: decimal_value_def)
  next
    case False
    with 1 have "decimal_value (digits (n div 10)) = n div 10" by simp
    with False show ?thesis
      by (subst digits.simps) (simp add: decimal_value_snoc)
  qed
qed

lemma digits_shape: "digits n \<noteq> [] \<and> list_all (\<lambda>d. 48 \<le> d \<and> d \<le> 57) (digits n)"
proof (induction n rule: digits.induct)
  case (1 n)
  show ?case
  proof (cases "n < 10")
    case True
    then show ?thesis by (subst digits.simps, subst (2) digits.simps) simp
  next
    case False
    with 1 have "list_all (\<lambda>d. 48 \<le> d \<and> d \<le> 57) (digits (n div 10))" by simp
    moreover have "n mod 10 \<le> 9" by simp
    ultimately show ?thesis using False
      by (subst digits.simps, subst (2) digits.simps) simp
  qed
qed

lemma digits_no_leading_zero: "0 < n \<Longrightarrow> hd (digits n) \<noteq> 48"
proof (induction n rule: digits.induct)
  case (1 n)
  show ?case
  proof (cases "n < 10")
    case True
    with "1.prems" show ?thesis by (subst digits.simps) simp
  next
    case False
    then have "0 < n div 10" by simp
    with 1 False have "hd (digits (n div 10)) \<noteq> 48" by simp
    moreover have "digits (n div 10) \<noteq> []" using digits_shape by blast
    ultimately show ?thesis using False by (subst digits.simps) simp
  qed
qed

lemma digits_zero: "digits 0 = [48]"
  by (subst digits.simps) simp

lemma digits_is_decimal: "is_decimal_of (digits n) n"
proof (cases "n = 0")
  case True
  then show ?thesis by (simp add: is_decimal_of_def digits_zero decimal_value_def)
next
  case False
  then have "hd (digits n) \<noteq> 48" by (simp add: digits_no_leading_zero)
  then show ?thesis
    using digits_shape [of n] digits_states_number [of n] by (simp add: is_decimal_of_def)
qed

text \<open>
  C9. An input longer than the budget \<open>B = 12000\<close> comes back as the notice followed by
  the last \<open>B\<close> characters of the input. The notice is the fixed text of the source with,
  in it, the decimal numeral of the original length. So the tail of the output is the
  final \<open>B\<close> characters of the input, and the output is \<open>B\<close> plus the notice long. An
  input of at most \<open>B\<close> characters comes back unchanged.
\<close>

theorem truncateForModel_budget:
  "default_maxChars = 12000 \<and>
   (default_maxChars < length s \<longrightarrow>
      truncateForModel s default_maxChars
        = [46, 46, 46, 40, 0x4e3a, 0x8282, 0x7701, 0x4e0a, 0x4e0b, 0x6587, 0xff0c, 0x5df2,
           0x622a, 0x65ad, 0xff0c, 0x5171, 32]
          @ digits (length s) @ [32, 0x5b57, 0x7b26, 41, 10]
          @ drop (length s - default_maxChars) s \<and>
      is_decimal_of (digits (length s)) (length s) \<and>
      drop (length (truncateForModel s default_maxChars) - default_maxChars)
           (truncateForModel s default_maxChars)
        = drop (length s - default_maxChars) s \<and>
      length (drop (length s - default_maxChars) s) = default_maxChars \<and>
      length (truncateForModel s default_maxChars)
        = default_maxChars + (17 + length (digits (length s)) + 5)) \<and>
   (length s \<le> default_maxChars \<longrightarrow> truncateForModel s default_maxChars = s)"
proof (intro conjI impI)
  show "default_maxChars = 12000" by (simp add: default_maxChars_def)
  show "length s \<le> default_maxChars \<Longrightarrow> truncateForModel s default_maxChars = s"
    by (auto simp: truncateForModel_def)
  show "is_decimal_of (digits (length s)) (length s)"
    by (rule digits_is_decimal)
next
  assume long: "default_maxChars < length s"
  then have ne: "s \<noteq> []" by auto
  from long ne
  have eqn: "truncateForModel s default_maxChars
               = notice (length s) @ drop (length s - default_maxChars) s"
    by (simp add: truncateForModel_def)
  then show "truncateForModel s default_maxChars
              = [46, 46, 46, 40, 0x4e3a, 0x8282, 0x7701, 0x4e0a, 0x4e0b, 0x6587, 0xff0c, 0x5df2,
                 0x622a, 0x65ad, 0xff0c, 0x5171, 32]
                @ digits (length s) @ [32, 0x5b57, 0x7b26, 41, 10]
                @ drop (length s - default_maxChars) s"
    by (simp add: notice_def)
  from long show len: "length (drop (length s - default_maxChars) s) = default_maxChars"
    by simp
  from eqn len
  show "drop (length (truncateForModel s default_maxChars) - default_maxChars)
             (truncateForModel s default_maxChars)
          = drop (length s - default_maxChars) s"
    by simp
  from eqn len
  show "length (truncateForModel s default_maxChars)
          = default_maxChars + (17 + length (digits (length s)) + 5)"
    by (simp add: notice_def)
qed

theorem truncateForModel_budget_witness:
  "default_maxChars < length (replicate 12001 (97::nat)) \<and>
   length (truncateForModel (replicate 12001 97) default_maxChars)
     = default_maxChars + (17 + length (digits 12001) + 5) \<and>
   is_decimal_of (digits 12001) 12001 \<and>
   length [97::nat, 98] \<le> default_maxChars \<and>
   truncateForModel [97, 98] default_maxChars = [97, 98]"
proof -
  have long: "default_maxChars < length (replicate 12001 (97::nat))"
    by (simp add: default_maxChars_def)
  have short: "length [97::nat, 98] \<le> default_maxChars"
    by (simp add: default_maxChars_def)
  have len: "length (replicate 12001 (97::nat)) = 12001" by simp
  from truncateForModel_budget [of "replicate 12001 97"] long
  have "length (truncateForModel (replicate 12001 97) default_maxChars)
     = default_maxChars + (17 + length (digits (length (replicate 12001 (97::nat)))) + 5) \<and>
     is_decimal_of (digits (length (replicate 12001 (97::nat)))) (length (replicate 12001 (97::nat)))"
    by blast
  moreover from truncateForModel_budget [of "[97, 98]"] short
  have "truncateForModel [97, 98] default_maxChars = [97, 98]" by blast
  ultimately show ?thesis using long short unfolding len by blast
qed

section \<open>Properties of the transport\<close>

lemma fetchLoop_step:
  "attempt \<le> retries cfg \<Longrightarrow>
   fetchLoop fetch req cfg attempt lastErr w =
     (if retryable_outcome (fetch (sent w @ [req])) \<and> attempt < retries cfg
      then fetchLoop fetch req cfg (Suc attempt)
             (case fetch (sent w @ [req]) of Rejected e \<Rightarrow> e | Responded r \<Rightarrow> lastErr)
             (w\<lparr>sent := sent w @ [req], slept := slept w @ [backoff cfg attempt]\<rparr>)
      else (outcome_result (fetch (sent w @ [req])), w\<lparr>sent := sent w @ [req]\<rparr>))"
  by (subst fetchLoop.simps) (auto simp: Let_def split: outcome.splits)

lemma fetchLoop_trace:
  "attempt \<le> retries cfg \<Longrightarrow>
   \<exists>k. loop_trace fetch req cfg attempt w (fetchLoop fetch req cfg attempt lastErr w) k"
proof (induction "retries cfg - attempt" arbitrary: attempt lastErr w)
  case 0
  then have "attempt = retries cfg" by simp
  then have "fetchLoop fetch req cfg attempt lastErr w
               = (outcome_result (fetch (sent w @ [req])), w\<lparr>sent := sent w @ [req]\<rparr>)"
    by (simp add: fetchLoop_step)
  with \<open>attempt = retries cfg\<close> have "loop_trace fetch req cfg attempt w (fetchLoop fetch req cfg attempt lastErr w) 1"
    by (simp add: loop_trace_def attempt_outcome_def)
  then show ?case ..
next
  case (Suc n)
  let ?o = "fetch (sent w @ [req])"
  let ?w2 = "w\<lparr>sent := sent w @ [req], slept := slept w @ [backoff cfg attempt]\<rparr>"
  let ?le = "case ?o of Rejected e \<Rightarrow> e | Responded r \<Rightarrow> lastErr"
  from Suc.hyps(2) have lt: "attempt < retries cfg" by simp
  show ?case
  proof (cases "retryable_outcome ?o")
    case False
    with Suc.prems have "fetchLoop fetch req cfg attempt lastErr w
               = (outcome_result ?o, w\<lparr>sent := sent w @ [req]\<rparr>)"
      by (simp add: fetchLoop_step)
    with False lt have "loop_trace fetch req cfg attempt w (fetchLoop fetch req cfg attempt lastErr w) 1"
      by (simp add: loop_trace_def attempt_outcome_def)
    then show ?thesis ..
  next
    case True
    with lt Suc.prems
    have step: "fetchLoop fetch req cfg attempt lastErr w
                  = fetchLoop fetch req cfg (Suc attempt) ?le ?w2"
      by (simp add: fetchLoop_step)
    from Suc.hyps(2) lt have "n = retries cfg - Suc attempt" "Suc attempt \<le> retries cfg"
      by simp_all
    from Suc.hyps(1) [OF this, of ?w2 ?le]
    obtain k where k: "loop_trace fetch req cfg (Suc attempt) ?w2
                         (fetchLoop fetch req cfg (Suc attempt) ?le ?w2) k"
      by blast
    have shift: "\<And>i. attempt_outcome fetch req ?w2 i = attempt_outcome fetch req w (Suc i)"
      by (simp add: attempt_outcome_def replicate_app_Cons_same)
    have o0: "attempt_outcome fetch req w 0 = ?o" by (simp add: attempt_outcome_def)
    have all: "\<forall>i < Suc k - 1. retryable_outcome (attempt_outcome fetch req w i)"
    proof (intro allI impI)
      fix i assume "i < Suc k - 1"
      show "retryable_outcome (attempt_outcome fetch req w i)"
      proof (cases i)
        case 0 with True o0 show ?thesis by simp
      next
        case (Suc j)
        with \<open>i < Suc k - 1\<close> have "j < k - 1" by simp
        with k have "retryable_outcome (attempt_outcome fetch req ?w2 j)"
          by (simp add: loop_trace_def)
        with Suc shift show ?thesis by simp
      qed
    qed
    from k have k1: "1 \<le> k" by (simp add: loop_trace_def)
    then obtain k' where k': "k = Suc k'" by (cases k) auto
    have up: "[attempt ..< attempt + Suc k - 1] = attempt # [Suc attempt ..< Suc attempt + k - 1]"
      using k1 by (simp add: upt_conv_Cons k')
    have "loop_trace fetch req cfg attempt w (fetchLoop fetch req cfg attempt lastErr w) (Suc k)"
      unfolding loop_trace_def
    proof (intro conjI)
      show "1 \<le> Suc k" by simp
      show "attempt + Suc k \<le> retries cfg + 1" using k by (simp add: loop_trace_def)
      show "snd (fetchLoop fetch req cfg attempt lastErr w)
             = w\<lparr>sent := sent w @ replicate (Suc k) req,
                 slept := slept w @ map (backoff cfg) [attempt ..< attempt + Suc k - 1]\<rparr>"
        using k unfolding step up by (simp add: loop_trace_def replicate_app_Cons_same)
      show "fst (fetchLoop fetch req cfg attempt lastErr w)
             = outcome_result (attempt_outcome fetch req w (Suc k - 1))"
        using k unfolding step by (simp add: loop_trace_def shift k')
      show "\<forall>i < Suc k - 1. retryable_outcome (attempt_outcome fetch req w i)" by (rule all)
      show "attempt + Suc k = retries cfg + 1 \<or>
            \<not> retryable_outcome (attempt_outcome fetch req w (Suc k - 1))"
        using k by (simp add: loop_trace_def shift k')
    qed
    then show ?thesis ..
  qed
qed

lemma isRetryableStatus_404: "\<not> isRetryableStatus 404"
  by (simp add: isRetryableStatus_def)

text \<open>
  C6. A call with policy \<open>{retries, baseDelayMs, maxDelayMs}\<close> makes \<open>n\<close> attempts with
  \<open>1 \<le> n \<le> retries + 1\<close>, all with the same request; every attempt but the last met a
  status 429 or 5xx or a transport error classified as retryable; the delay slept after
  attempt number \<open>attempt\<close> is \<open>min maxDelayMs (baseDelayMs * 2 ^ attempt)\<close>; the call ends
  with what the last attempt gave. A first response with a status that is not retryable
  (404 is one) is returned at once, after one attempt and no delay. With two retries, the
  responses 500, 500, 200 give exactly three attempts and the 200 response is returned.
\<close>

theorem fetchWithRetry_policy:
  fixes fetch :: "('q, 'b) network"
  shows
  "(let r = fetchWithRetry fetch req cfg w;
        n = attempts_made w (snd r);
        outcome = attempt_outcome fetch req w
    in 1 \<le> n \<and> n \<le> retries cfg + 1 \<and>
       sent (snd r) = sent w @ replicate n req \<and>
       slept (snd r)
         = slept w @ map (\<lambda>attempt. min (maxDelayMs cfg) (baseDelayMs cfg * 2 ^ attempt)) [0 ..< n - 1] \<and>
       (\<forall>i < n - 1. case outcome i of
                       Responded res \<Rightarrow> status res = 429 \<or> (500 \<le> status res \<and> status res \<le> 599)
                     | Rejected err \<Rightarrow> isRetryableError err) \<and>
       fst r = outcome_result (outcome (n - 1)) \<and>
       (\<forall>res. outcome 0 = Responded res \<and> \<not> isRetryableStatus (status res)
              \<longrightarrow> r = (Inr res, w\<lparr>sent := sent w @ [req]\<rparr>)) \<and>
       \<not> isRetryableStatus 404 \<and>
       (\<forall>r0 r1 r2. retries cfg = 2 \<and>
              outcome 0 = Responded r0 \<and> status r0 = 500 \<and>
              outcome 1 = Responded r1 \<and> status r1 = 500 \<and>
              outcome 2 = Responded r2 \<and> status r2 = 200
              \<longrightarrow> n = 3 \<and> fst r = Inr r2))"
proof -
  define r where "r = fetchWithRetry fetch req cfg w"
  define n where "n = attempts_made w (snd r)"
  from fetchLoop_trace [of 0 cfg fetch req w ThrownUndefined]
  obtain k where k: "loop_trace fetch req cfg 0 w r k"
    by (auto simp: r_def fetchWithRetry_def)
  then have sent: "sent (snd r) = sent w @ replicate k req"
    by (simp add: loop_trace_def)
  then have nk: "n = k" by (simp add: n_def attempts_made_def)
  have bo: "backoff cfg = (\<lambda>attempt. min (maxDelayMs cfg) (baseDelayMs cfg * 2 ^ attempt))"
    by (rule ext) (simp add: backoff_def)
  have c1: "1 \<le> n" "n \<le> retries cfg + 1" using k by (simp_all add: loop_trace_def nk)
  have c2: "sent (snd r) = sent w @ replicate n req" using sent nk by simp
  have c3: "slept (snd r)
         = slept w @ map (\<lambda>attempt. min (maxDelayMs cfg) (baseDelayMs cfg * 2 ^ attempt)) [0 ..< n - 1]"
    using k by (simp add: loop_trace_def nk bo)
  have retr: "\<forall>i < n - 1. retryable_outcome (attempt_outcome fetch req w i)"
    using k by (simp add: loop_trace_def nk)
  have c4: "\<forall>i < n - 1. case attempt_outcome fetch req w i of
                       Responded res \<Rightarrow> status res = 429 \<or> (500 \<le> status res \<and> status res \<le> 599)
                     | Rejected err \<Rightarrow> isRetryableError err"
  proof (intro allI impI)
    fix i assume "i < n - 1"
    with retr have "retryable_outcome (attempt_outcome fetch req w i)" by simp
    then show "case attempt_outcome fetch req w i of
                       Responded res \<Rightarrow> status res = 429 \<or> (500 \<le> status res \<and> status res \<le> 599)
                     | Rejected err \<Rightarrow> isRetryableError err"
      by (cases "attempt_outcome fetch req w i") (simp_all add: isRetryableStatus_def)
  qed
  have c5: "fst r = outcome_result (attempt_outcome fetch req w (n - 1))"
    using k by (simp add: loop_trace_def nk)
  have last: "n = retries cfg + 1 \<or> \<not> retryable_outcome (attempt_outcome fetch req w (n - 1))"
    using k by (simp add: loop_trace_def nk)
  have c6: "\<forall>res. attempt_outcome fetch req w 0 = Responded res \<and> \<not> isRetryableStatus (status res)
              \<longrightarrow> r = (Inr res, w\<lparr>sent := sent w @ [req]\<rparr>)"
  proof (intro allI impI)
    fix res assume a: "attempt_outcome fetch req w 0 = Responded res \<and> \<not> isRetryableStatus (status res)"
    then have "\<not> retryable_outcome (attempt_outcome fetch req w 0)" by simp
    with retr have "\<not> 0 < n - 1" by blast
    with c1 have n1: "k = 1" by (simp add: nk)
    from k a have "fst r = Inr res" by (simp add: loop_trace_def n1)
    moreover from k have "snd r = w\<lparr>sent := sent w @ [req]\<rparr>" by (simp add: loop_trace_def n1)
    ultimately show "r = (Inr res, w\<lparr>sent := sent w @ [req]\<rparr>)" by (simp add: prod_eq_iff)
  qed
  have c7: "\<forall>r0 r1 r2. retries cfg = 2 \<and>
              attempt_outcome fetch req w 0 = Responded r0 \<and> status r0 = 500 \<and>
              attempt_outcome fetch req w 1 = Responded r1 \<and> status r1 = 500 \<and>
              attempt_outcome fetch req w 2 = Responded r2 \<and> status r2 = 200
              \<longrightarrow> n = 3 \<and> fst r = Inr r2"
  proof (intro allI impI)
    fix r0 r1 r2
    assume a: "retries cfg = 2 \<and>
              attempt_outcome fetch req w 0 = Responded r0 \<and> status r0 = 500 \<and>
              attempt_outcome fetch req w 1 = Responded r1 \<and> status r1 = 500 \<and>
              attempt_outcome fetch req w 2 = Responded r2 \<and> status r2 = 200"
    then have r0: "retryable_outcome (attempt_outcome fetch req w 0)"
      and r1: "retryable_outcome (attempt_outcome fetch req w 1)"
      by (simp_all add: isRetryableStatus_def)
    from c1 a have "n = 1 \<or> n = 2 \<or> n = 3" by auto
    with last r0 r1 a have n3: "n = 3" by auto
    with c5 a show "n = 3 \<and> fst r = Inr r2" by simp
  qed
  from c1 c2 c3 c4 c5 c6 c7 isRetryableStatus_404
  show ?thesis unfolding Let_def r_def [symmetric] n_def [symmetric] by blast
qed

theorem fetchWithRetry_policy_witness:
  "retries default_cfg = 2 \<and>
   attempt_outcome scenarioA () \<lparr>sent = [], slept = []\<rparr> 0 = Responded \<lparr>status = 500, body = ()\<rparr> \<and>
   attempt_outcome scenarioA () \<lparr>sent = [], slept = []\<rparr> 1 = Responded \<lparr>status = 500, body = ()\<rparr> \<and>
   attempt_outcome scenarioA () \<lparr>sent = [], slept = []\<rparr> 2 = Responded \<lparr>status = 200, body = ()\<rparr> \<and>
   attempts_made \<lparr>sent = [], slept = []\<rparr> (snd (fetchWithRetry scenarioA () default_cfg \<lparr>sent = [], slept = []\<rparr>)) = 3 \<and>
   fst (fetchWithRetry scenarioA () default_cfg \<lparr>sent = [], slept = []\<rparr>) = Inr \<lparr>status = 200, body = ()\<rparr>"
proof -
  have h: "retries default_cfg = 2 \<and>
   attempt_outcome scenarioA () \<lparr>sent = [], slept = []\<rparr> 0 = Responded \<lparr>status = 500, body = ()\<rparr> \<and>
   status \<lparr>status = 500::nat, body = ()\<rparr> = 500 \<and>
   attempt_outcome scenarioA () \<lparr>sent = [], slept = []\<rparr> 1 = Responded \<lparr>status = 500, body = ()\<rparr> \<and>
   status \<lparr>status = 500::nat, body = ()\<rparr> = 500 \<and>
   attempt_outcome scenarioA () \<lparr>sent = [], slept = []\<rparr> 2 = Responded \<lparr>status = 200, body = ()\<rparr> \<and>
   status \<lparr>status = 200::nat, body = ()\<rparr> = 200"
    by (simp add: default_cfg_def attempt_outcome_def scenarioA_def)
  from fetchWithRetry_policy [of scenarioA "()" default_cfg "\<lparr>sent = [], slept = []\<rparr>"] h
  show ?thesis unfolding Let_def by blast
qed

section \<open>Properties of the registry and the router\<close>

lemmas registry_defs = MODEL_MAP_def openai_model_def deepseek_model_def gemini_model_def

lemma own_default:
  "map_of MODEL_MAP (ascii ''gpt-5-mini'')
     = Some \<lparr>provider = ascii ''openai'', model = ascii ''gpt-5-mini'',
        capabilities = \<lparr>reasoning = False, webSearch = True, vision = True, canvas = True\<rparr>\<rparr>"
  by (simp add: registry_defs)

lemma lookup_default:
  "lookup (ascii ''gpt-5-mini'')
     = Some (Entry \<lparr>provider = ascii ''openai'', model = ascii ''gpt-5-mini'',
        capabilities = \<lparr>reasoning = False, webSearch = True, vision = True, canvas = True\<rparr>\<rparr>)"
  by (simp add: lookup_def own_default)





lemma fetchWithRetry_final:
  "fetch (sent w @ [req]) = Responded res \<Longrightarrow> \<not> isRetryableStatus (status res) \<Longrightarrow>
   fetchWithRetry fetch req cfg w = (Inr res, w\<lparr>sent := sent w @ [req]\<rparr>)"
  by (simp add: fetchWithRetry_def fetchLoop_step)

lemma fetchWithRetry_sent:
  "\<exists>k. sent (snd (fetchWithRetry fetch req cfg w)) = sent w @ replicate k req"
proof -
  from fetchLoop_trace [of 0 cfg fetch req w ThrownUndefined]
  obtain k where "loop_trace fetch req cfg 0 w (fetchLoop fetch req cfg 0 ThrownUndefined w) k"
    by auto
  then have "sent (snd (fetchWithRetry fetch req cfg w)) = sent w @ replicate k req"
    by (simp add: fetchWithRetry_def loop_trace_def)
  then show ?thesis ..
qed

lemma exchange_sent:
  "\<exists>k. sent (snd (exchange fetch req fb parse w)) = sent w @ replicate k req"
proof -
  obtain r w' where r: "fetchWithRetry fetch req adapter_cfg w = (r, w')"
    by (cases "fetchWithRetry fetch req adapter_cfg w")
  with fetchWithRetry_sent [of fetch req adapter_cfg w]
  obtain k where "sent w' = sent w @ replicate k req" by auto
  moreover have "snd (exchange fetch req fb parse w) = w'"
    using r by (auto simp: exchange_def split: sum.splits)
  ultimately show ?thesis by auto
qed

lemma requests_of_same: "requests_of w w = []"
  by (simp add: requests_of_def)

lemma exchange_requests:
  assumes "q \<in> set (requests_of w (snd (exchange fetch req fb parse w)))"
  shows "q = req"
proof -
  from exchange_sent [of fetch req fb parse w]
  obtain k where "sent (snd (exchange fetch req fb parse w)) = sent w @ replicate k req" ..
  then have "requests_of w (snd (exchange fetch req fb parse w)) = replicate k req"
    by (simp add: requests_of_def)
  with assms show ?thesis by auto
qed

lemma callOpenAI_requests:
  "q \<in> set (requests_of w (snd (callOpenAI e fetch mdl messages dm ws ot w))) \<Longrightarrow>
   \<exists>apiKey. q = openai_request e apiKey mdl messages dm ws ot"
  by (auto simp: callOpenAI_def requests_of_same split: option.splits if_splits
           dest: exchange_requests)

lemma callDeepSeek_requests:
  "q \<in> set (requests_of w (snd (callDeepSeek e fetch mdl messages dm w))) \<Longrightarrow>
   \<exists>apiKey. q = deepseek_request e apiKey mdl messages dm"
  by (auto simp: callDeepSeek_def requests_of_same split: option.splits if_splits
           dest: exchange_requests)

lemma callGemini_requests:
  "q \<in> set (requests_of w (snd (callGemini e fetch mdl messages dm w))) \<Longrightarrow>
   \<exists>apiKey. q = gemini_request apiKey mdl messages dm"
  by (auto simp: callGemini_def requests_of_same split: option.splits if_splits
           dest: exchange_requests)

lemma callProvider_requests:
  assumes "q \<in> set (requests_of w (snd (callProvider e fetch config messages dm ws ot w)))"
  shows "(asks_reasoning (payload q) \<longrightarrow> dm) \<and> (asks_webSearch (payload q) \<longrightarrow> ws)"
proof -
  consider (o) "provider config = ascii ''openai''"
    | (d) "provider config \<noteq> ascii ''openai''" "provider config = ascii ''deepseek''"
    | (g) "provider config \<noteq> ascii ''openai''" "provider config \<noteq> ascii ''deepseek''"
          "provider config = ascii ''gemini''"
    | (u) "provider config \<noteq> ascii ''openai''" "provider config \<noteq> ascii ''deepseek''"
          "provider config \<noteq> ascii ''gemini''"
    by blast
  then show ?thesis
  proof cases
    case o
    with assms obtain k where "q = openai_request e k (model config) messages dm ws ot"
      by (auto simp: callProvider_def dest: callOpenAI_requests)
    then show ?thesis by (simp add: openai_request_def Let_def)
  next
    case d
    with assms obtain k where "q = deepseek_request e k (model config) messages dm"
      by (auto simp: callProvider_def dest: callDeepSeek_requests)
    then show ?thesis by (simp add: deepseek_request_def)
  next
    case g
    with assms obtain k where "q = gemini_request k (model config) messages dm"
      by (auto simp: callProvider_def dest: callGemini_requests)
    then show ?thesis by (simp add: gemini_request_def)
  next
    case u
    with assms show ?thesis by (simp add: callProvider_def requests_of_same)
  qed
qed

lemma normalizeCanvas_has_canvas: "has_canvas (normalizeCanvas t raw)"
  by (induction t raw rule: normalizeCanvas.induct) simp_all

lemma callModelWithConfig_returns:
  "\<exists>v. fst (callModelWithConfig e fetch config messages options w) = Inr v"
  by (auto simp: callModelWithConfig_def Let_def split: prod.splits sum.splits)

lemma callModelWithConfig_net:
  "snd (callModelWithConfig e fetch config messages options w)
     = snd (callProvider e fetch config messages
              (opt_depthMode options \<and> reasoning (capabilities config))
              (opt_webSearch options \<and> webSearch (capabilities config))
              (or_default (opt_outputTarget options) (ascii ''chat'')) w)"
  by (auto simp: callModelWithConfig_def Let_def split: prod.splits sum.splits)

lemma callModelWithConfig_canvas:
  assumes "or_default (opt_outputTarget options) (ascii ''chat'') = ascii ''canvas''"
  shows "\<exists>v. fst (callModelWithConfig e fetch config messages options w) = Inr v \<and> has_canvas v"
  using assms
  by (auto simp: callModelWithConfig_def Let_def softFailure_def normalizeCanvas_has_canvas
           split: prod.splits sum.splits)

text \<open>
  C1. In every request that a model call sends, reasoning is asked for only
  if the caller wants it and the model has the reasoning flag, and web search only if the
  caller wants it and the model has the web-search flag. The canvas flag of the model is
  not consulted: whenever the output target of the caller is \<open>canvas\<close>, the call
  returns a result with a canvas.
\<close>

theorem features_gated:
  "(\<forall>q \<in> set (requests_of w (snd (callModelWithConfig e fetch config messages options w))).
      (asks_reasoning (payload q)
         \<longrightarrow> opt_depthMode options \<and> reasoning (capabilities config)) \<and>
      (asks_webSearch (payload q)
         \<longrightarrow> opt_webSearch options \<and> webSearch (capabilities config))) \<and>
   (or_default (opt_outputTarget options) (ascii ''chat'') = ascii ''canvas''
      \<longrightarrow> (\<exists>v. fst (callModelWithConfig e fetch config messages options w) = Inr v \<and>
               has_canvas v))"
proof (intro conjI ballI impI)
  fix q
  assume "q \<in> set (requests_of w (snd (callModelWithConfig e fetch config messages options w)))"
  then have gate:
    "(asks_reasoning (payload q) \<longrightarrow> opt_depthMode options \<and> reasoning (capabilities config)) \<and>
     (asks_webSearch (payload q) \<longrightarrow> opt_webSearch options \<and> webSearch (capabilities config))"
    unfolding callModelWithConfig_net by (rule callProvider_requests)
  { assume "asks_reasoning (payload q)"
    with gate show "opt_depthMode options" and "reasoning (capabilities config)" by simp_all }
  { assume "asks_webSearch (payload q)"
    with gate show "opt_webSearch options" and "webSearch (capabilities config)" by simp_all }
next
  assume "or_default (opt_outputTarget options) (ascii ''chat'') = ascii ''canvas''"
  then show "\<exists>v. fst (callModelWithConfig e fetch config messages options w) = Inr v \<and>
               has_canvas v"
    by (rule callModelWithConfig_canvas)
qed

lemma exchange_final:
  assumes "fetch (sent w @ [req]) = Responded res" "\<not> isRetryableStatus (status res)"
    and "body res = Inr json"
  shows "exchange fetch req fb parse w
           = ((if ok res then Inr (parse json)
               else Inl (Error (or_default (error_message json) fb))),
              w\<lparr>sent := sent w @ [req]\<rparr>)"
  using assms by (simp add: exchange_def fetchWithRetry_final)

lemma provider_names_distinct:
  "ascii ''deepseek'' \<noteq> ascii ''openai''" "ascii ''gemini'' \<noteq> ascii ''openai''"
  "ascii ''gemini'' \<noteq> ascii ''deepseek''" "ascii ''canvas'' \<noteq> ascii ''chat''"
  by (simp_all add: ascii_def)

lemma callModelWithConfig_deepseek_final:
  assumes "provider config = ascii ''deepseek''" "DEEPSEEK_API_KEY e = Some k" "k \<noteq> []"
    and "fetch (sent w @ [deepseek_request e k (model config) ms
                            (opt_depthMode options \<and> reasoning (capabilities config))])
           = Responded res"
    and "\<not> isRetryableStatus (status res)" "body res = Inr json"
  shows "callModelWithConfig e fetch config ms options w
     = (Inr (if ok res
             then (if or_default (opt_outputTarget options) (ascii ''chat'') = ascii ''canvas''
                   then ResObject [] (Some \<lparr>cb_title = JString (or_default (opt_canvasTitle options) canvas_default),
                                             cb_content = JString (or_default (choice_content json) [])\<rparr>)
                   else ResString (or_default (choice_content json) []))
             else softFailure (or_default (opt_outputTarget options) (ascii ''chat''))
                    (or_default (opt_canvasTitle options) canvas_default)),
        w\<lparr>sent := sent w @ [deepseek_request e k (model config) ms
                            (opt_depthMode options \<and> reasoning (capabilities config))]\<rparr>)"
proof -
  let ?req = "deepseek_request e k (model config) ms
                (opt_depthMode options \<and> reasoning (capabilities config))"
  have ex: "exchange fetch ?req fb parse w
              = ((if ok res then Inr (parse json)
                  else Inl (Error (or_default (error_message json) fb))),
                 w\<lparr>sent := sent w @ [?req]\<rparr>)" for fb parse
    using assms(4-6) by (rule exchange_final)
  from assms(1-3) show ?thesis
    by (simp add: callModelWithConfig_def callProvider_def provider_names_distinct
                  callDeepSeek_def ex softFailure_def)
qed

lemma cfg_deepseek_reasoner:
  "cfg_of ''deepseek-reasoner''
     = \<lparr>provider = ascii ''deepseek'', model = ascii ''deepseek-reasoner'',
        capabilities = \<lparr>reasoning = True, webSearch = False, vision = False, canvas = False\<rparr>\<rparr>"
  by (simp add: cfg_of_def registry_defs)

lemma deepseek_hi:
  "callModelWithConfig all_keys (always_status 200 hi_json) (cfg_of ''deepseek-reasoner'') [] canvas_opts w0
     = (Inr (ResObject [] (Some \<lparr>cb_title = JString canvas_default, cb_content = JString (ascii ''hi'')\<rparr>)),
        w0\<lparr>sent := sent w0 @ [deepseek_request all_keys (ascii ''k2'') (ascii ''deepseek-reasoner'') [] True]\<rparr>)"
proof -
  have h: "provider (cfg_of ''deepseek-reasoner'') = ascii ''deepseek''"
    "DEEPSEEK_API_KEY all_keys = Some (ascii ''k2'')" "ascii ''k2'' \<noteq> []"
    "always_status 200 hi_json (sent w0 @ [deepseek_request all_keys (ascii ''k2'') (model (cfg_of ''deepseek-reasoner'')) []
                            (opt_depthMode canvas_opts \<and> reasoning (capabilities (cfg_of ''deepseek-reasoner'')))])
       = Responded \<lparr>status = 200, body = Inr hi_json\<rparr>"
    "\<not> isRetryableStatus (status \<lparr>status = 200, body = Inr hi_json\<rparr>)"
    "body \<lparr>status = 200::nat, body = Inr hi_json\<rparr> = Inr hi_json"
    by (simp_all add: cfg_deepseek_reasoner all_keys_def ascii_def always_status_def
                      isRetryableStatus_def)
  have v: "ok \<lparr>status = 200, body = Inr hi_json\<rparr>"
    "or_default (opt_outputTarget canvas_opts) (ascii ''chat'') = ascii ''canvas''"
    "or_default (opt_canvasTitle canvas_opts) canvas_default = canvas_default"
    "or_default (choice_content hi_json) [] = ascii ''hi''"
    "opt_depthMode canvas_opts" "reasoning (capabilities (cfg_of ''deepseek-reasoner''))"
    "model (cfg_of ''deepseek-reasoner'') = ascii ''deepseek-reasoner''"
    by (simp_all add: ok_def canvas_opts_def hi_json_def json_empty_def ascii_def cfg_deepseek_reasoner)
  show ?thesis
    unfolding callModelWithConfig_deepseek_final
      [where fetch = "always_status 200 hi_json" and w = w0 and options = canvas_opts
         and ms = "[]" and config = "cfg_of ''deepseek-reasoner''", OF h]
    by (simp only: v if_True simp_thms)
qed

lemma cfg_deepseek_chat:
  "cfg_of ''deepseek-chat''
     = \<lparr>provider = ascii ''deepseek'', model = ascii ''deepseek-chat'',
        capabilities = \<lparr>reasoning = False, webSearch = False, vision = False, canvas = False\<rparr>\<rparr>"
  by (simp add: cfg_of_def registry_defs)

lemma deepseek_chat_hi:
  "callModelWithConfig all_keys (always_status 200 hi_json) (cfg_of ''deepseek-chat'') [] canvas_opts w0
     = (Inr (ResObject [] (Some \<lparr>cb_title = JString canvas_default, cb_content = JString (ascii ''hi'')\<rparr>)),
        w0\<lparr>sent := sent w0 @ [deepseek_request all_keys (ascii ''k2'') (ascii ''deepseek-chat'') [] False]\<rparr>)"
proof -
  have h: "provider (cfg_of ''deepseek-chat'') = ascii ''deepseek''"
    "DEEPSEEK_API_KEY all_keys = Some (ascii ''k2'')" "ascii ''k2'' \<noteq> []"
    "always_status 200 hi_json (sent w0 @ [deepseek_request all_keys (ascii ''k2'') (model (cfg_of ''deepseek-chat'')) []
                            (opt_depthMode canvas_opts \<and> reasoning (capabilities (cfg_of ''deepseek-chat'')))])
       = Responded \<lparr>status = 200, body = Inr hi_json\<rparr>"
    "\<not> isRetryableStatus (status \<lparr>status = 200, body = Inr hi_json\<rparr>)"
    "body \<lparr>status = 200::nat, body = Inr hi_json\<rparr> = Inr hi_json"
    by (simp_all add: cfg_deepseek_chat all_keys_def ascii_def always_status_def
                      isRetryableStatus_def)
  have v: "ok \<lparr>status = 200, body = Inr hi_json\<rparr>"
    "or_default (opt_outputTarget canvas_opts) (ascii ''chat'') = ascii ''canvas''"
    "or_default (opt_canvasTitle canvas_opts) canvas_default = canvas_default"
    "or_default (choice_content hi_json) [] = ascii ''hi''"
    "(opt_depthMode canvas_opts \<and> reasoning (capabilities (cfg_of ''deepseek-chat''))) = False"
    "model (cfg_of ''deepseek-chat'') = ascii ''deepseek-chat''"
    by (simp_all add: ok_def canvas_opts_def hi_json_def json_empty_def ascii_def cfg_deepseek_chat)
  show ?thesis
    unfolding callModelWithConfig_deepseek_final
      [where fetch = "always_status 200 hi_json" and w = w0 and options = canvas_opts
         and ms = "[]" and config = "cfg_of ''deepseek-chat''", OF h]
    by (simp only: v if_True simp_thms)
qed

text \<open>
  The registry entry \<open>deepseek-chat\<close> has the canvas flag false, and a call with the
  output target \<open>canvas\<close> still returns a canvas result: the plain string of the
  provider wrapped into a canvas.
\<close>

theorem canvas_flag_not_consulted_counterexample:
  "lookup (ascii ''deepseek-chat'') = Some (Entry (cfg_of ''deepseek-chat'')) \<and>
   \<not> canvas (capabilities (cfg_of ''deepseek-chat'')) \<and>
   opt_outputTarget canvas_opts = Some (ascii ''canvas'') \<and>
   fst (callModelWithConfig all_keys (always_status 200 hi_json) (cfg_of ''deepseek-chat'') []
          canvas_opts w0)
     = Inr (ResObject [] (Some \<lparr>cb_title = JString canvas_default, cb_content = JString (ascii ''hi'')\<rparr>))"
proof -
  have "lookup (ascii ''deepseek-chat'') = Some (Entry (cfg_of ''deepseek-chat''))"
    by (simp add: lookup_def cfg_of_def registry_defs)
  moreover have "\<not> canvas (capabilities (cfg_of ''deepseek-chat''))"
    by (simp add: cfg_deepseek_chat)
  moreover have "opt_outputTarget canvas_opts = Some (ascii ''canvas'')"
    by (simp add: canvas_opts_def)
  ultimately show ?thesis by (simp only: deepseek_chat_hi fst_conv simp_thms)
qed

theorem features_gated_witness:
  "deepseek_request all_keys (ascii ''k2'') (ascii ''deepseek-reasoner'') [] True
     \<in> set (requests_of w0 (snd (callModelWithConfig all_keys (always_status 200 hi_json)
                                    (cfg_of ''deepseek-reasoner'') [] canvas_opts w0))) \<and>
   asks_reasoning (payload (deepseek_request all_keys (ascii ''k2'') (ascii ''deepseek-reasoner'') [] True)) \<and>
   opt_depthMode canvas_opts \<and> reasoning (capabilities (cfg_of ''deepseek-reasoner'')) \<and>
   or_default (opt_outputTarget canvas_opts) (ascii ''chat'') = ascii ''canvas'' \<and>
   (\<exists>v. fst (callModelWithConfig all_keys (always_status 200 hi_json)
                (cfg_of ''deepseek-reasoner'') [] canvas_opts w0) = Inr v \<and> has_canvas v)"
proof -
  let ?q = "deepseek_request all_keys (ascii ''k2'') (ascii ''deepseek-reasoner'') [] True"
  have m: "?q \<in> set (requests_of w0 (snd (callModelWithConfig all_keys (always_status 200 hi_json)
                                    (cfg_of ''deepseek-reasoner'') [] canvas_opts w0)))"
    by (simp add: deepseek_hi requests_of_def)
  have a: "asks_reasoning (payload ?q)" by (simp add: deepseek_request_def)
  have t: "or_default (opt_outputTarget canvas_opts) (ascii ''chat'') = ascii ''canvas''"
    by (simp add: canvas_opts_def ascii_def)
  from features_gated [of w0 all_keys "always_status 200 hi_json" "cfg_of ''deepseek-reasoner''"
                          "[]" canvas_opts] m a t
  show ?thesis by blast
qed
















section \<open>Properties of the canvas state machine\<close>

lemma trim_leading: "\<forall>c \<in> set ws. isWhiteSpace c \<Longrightarrow> trim (ws @ s) = trim s"
  by (simp add: trim_def dropWhile_append2)



text \<open>
  C8. In a canvas-mode turn without the intent \<open>new\<close>, where the prior canvas (a canvas
  document as the handler writes them, with an identifier and a title) has the content
  \<open>X\<close> and the model gives the chunk \<open>Y\<close>, the content of the resulting canvas is
  \<open>X\<close>, a blank line, \<open>Y\<close>, trimmed of surrounding white space, and the identifier and
  the title are those of the prior canvas.
\<close>

theorem append_canvas:
  assumes "\<not> wantNewCanvas"
    and "findExistingCanvas JSON_parse (ascii ''canvas'') wantNewCanvas history
           = Some \<lparr>cj_id = Some i, cj_title = Some t, cj_content = Some X\<rparr>"
    and "i \<noteq> []" "t \<noteq> []" "result \<noteq> ResMissing"
  shows "canvasTurn JSON_parse history wantNewCanvas result randomUUID now
           = Inr \<lparr>doc_id = i, doc_title = t,
                  doc_content = trim (X @ [10, 10] @ result_chunk result), doc_updatedAt = now\<rparr>"
proof -
  have ws: "\<forall>c \<in> set [10, 10]. isWhiteSpace c" by (simp add: isWhiteSpace_def)
  have m: "merge_canvas (base_of False (Some \<lparr>cj_id = Some i, cj_title = Some t, cj_content = Some X\<rparr>)) Y
             = trim (X @ [10, 10] @ Y)" for Y
  proof (cases "X = []")
    case True
    then show ?thesis using trim_leading [OF ws, of Y] by (simp add: merge_canvas_def base_of_def)
  next
    case False
    then show ?thesis by (simp add: merge_canvas_def base_of_def)
  qed
  from assms show ?thesis
    by (cases result)
       (simp_all add: canvasTurn_def canvasTitle_of_def canvasObj_of_def m result_chunk_def)
qed

text \<open>
  Every canvas that the handler writes has an identifier and a title that are not empty
  (the generated identifier is never empty), so the prior canvas of a later turn has them.
\<close>

lemma canvasTurn_wellformed:
  assumes "canvasTurn JSON_parse history wantNewCanvas result randomUUID now = Inr doc"
    and "randomUUID \<noteq> []"
  shows "doc_id doc \<noteq> [] \<and> doc_title doc \<noteq> []"
proof -
  have t: "canvasTitle_of ex \<noteq> []" for ex
    by (cases ex) (auto simp: canvasTitle_of_def canvas_default_def elim: truthy.elims)
  have i: "(case ex of None \<Rightarrow> randomUUID
            | Some c \<Rightarrow> if truthy (cj_id c) \<and> \<not> wantNewCanvas then the (cj_id c) else randomUUID) \<noteq> []"
    for ex
    using assms(2) by (cases ex) (auto elim: truthy.elims)
  let ?ex = "findExistingCanvas JSON_parse (ascii ''canvas'') wantNewCanvas history"
  from assms(1) show ?thesis
    using t [of ?ex] i [of ?ex]
    by (auto simp: canvasTurn_def Let_def canvasObj_of_def split: sum.splits)
qed




lemma findExistingCanvas_X:
  "findExistingCanvas (parse_one (ascii ''{X}'') canvas_X) (ascii ''canvas'') False history_X
     = Some \<lparr>cj_id = Some (ascii ''id-1''), cj_title = Some (ascii ''Notes''),
             cj_content = Some (ascii ''X'')\<rparr>"
  by (simp add: findExistingCanvas_def latestCanvasRow_def history_X_def isCanvasMarker_def like_canvas_def
                safeParseCanvasSystem_def parse_one_def canvas_X_def CANVAS_PREFIX_def ascii_def)

theorem append_canvas_witness:
  "\<not> False \<and>
   findExistingCanvas (parse_one (ascii ''{X}'') canvas_X) (ascii ''canvas'') False history_X
     = Some \<lparr>cj_id = Some (ascii ''id-1''), cj_title = Some (ascii ''Notes''),
             cj_content = Some (ascii ''X'')\<rparr> \<and>
   ascii ''id-1'' \<noteq> [] \<and> ascii ''Notes'' \<noteq> [] \<and> result_Y \<noteq> ResMissing \<and>
   canvasTurn (parse_one (ascii ''{X}'') canvas_X) history_X False result_Y (ascii ''u-1'') (ascii ''now'')
     = Inr \<lparr>doc_id = ascii ''id-1'', doc_title = ascii ''Notes'',
            doc_content = trim (ascii ''X'' @ [10, 10] @ result_chunk result_Y),
            doc_updatedAt = ascii ''now''\<rparr> \<and>
   trim (ascii ''X'' @ [10, 10] @ result_chunk result_Y) = [88, 10, 10, 89]"
proof -
  have a: "\<not> False" by simp
  have n: "ascii ''id-1'' \<noteq> []" "ascii ''Notes'' \<noteq> []" "result_Y \<noteq> ResMissing"
    by (simp_all add: ascii_def result_Y_def)
  have c: "trim (ascii ''X'' @ [10, 10] @ result_chunk result_Y) = [88, 10, 10, 89]"
    by (simp add: result_chunk_def result_Y_def chunk_of_def trim_def isWhiteSpace_def ascii_def)
  from append_canvas [OF a findExistingCanvas_X n] findExistingCanvas_X n c
  show ?thesis by blast
qed

section \<open>Properties of the extractor\<close>





lemma ext_values:
  "last_dot_ext (ascii ''a.zip'') = ascii ''.zip''"
  "last_dot_ext (ascii ''a.txt'') = ascii ''.txt''"
  "last_dot_ext (ascii ''big.txt'') = ascii ''.txt''"
  "last_dot_ext (ascii ''b.pdf'') = ascii ''.pdf''"
  "last_dot_ext (ascii ''report.pdf'') = ascii ''.pdf''"
  by (simp_all add: last_dot_ext_def ascii_def)


lemma pdf_run:
  "analyzeUpload blob_libs (ascii ''report.pdf'') (Broken 5)
     = (Inl (Error (ascii ''Invalid PDF structure'')), zipState0)"
  by (simp add: analyzeUpload_def analyzeFileBuffer.simps blob_libs_def ext_values)

lemma small_zip_run:
  "analyzeUpload blob_libs (ascii ''a.zip'') small_zip
     = (Inr (zip_header (ascii ''a.zip'') @ entry_header (ascii ''a.txt'')
              @ kind_header text_kind (ascii ''a.txt'') @ ascii ''hi'' @ [10]),
        \<lparr>files = 1, bytes = 2, expanded = [(ascii ''a.txt'', 2)]\<rparr>)"
  by (simp add: analyzeUpload_def analyzeFileBuffer.simps blob_libs_def ext_values small_zip_def
                zipState0_def MAX_ZIP_FILES_def MAX_ZIP_TOTAL_BYTES_def)

lemma pdf_zip_run:
  "fst (analyzeUpload blob_libs (ascii ''a.zip'') pdf_zip)
     = Inl (Error (ascii ''Invalid PDF structure''))"
  by (simp add: analyzeUpload_def analyzeFileBuffer.simps blob_libs_def ext_values pdf_zip_def
                zipState0_def MAX_ZIP_FILES_def MAX_ZIP_TOTAL_BYTES_def)





text \<open>
  A throw of the PDF parser leaves \<open>analyzeFileBuffer\<close>; a throw of the vision call
  is caught and rendered inside the text.
\<close>

lemma pdf_failure_general:
  assumes "\<not> depth > 3" "lower_extname L fileName = ascii ''.pdf''" "pdf_text L buffer = Inl err"
  shows "analyzeFileBuffer L fileName buffer depth st = (Inl err, st)"
  using assms by (subst analyzeFileBuffer.simps) simp

lemma image_failure_caught:
  assumes "\<not> depth > 3" "lower_extname L fileName = ascii ''.png''"
    and "callVisionOpenAI L buffer (mimeType_of (ascii ''.png'')) = Inl e"
  shows "analyzeFileBuffer L fileName buffer depth st
           = (Inr (kind_header image_kind fileName @ image_failed (errorText e)), st)"
  using assms by (subst analyzeFileBuffer.simps) simp

text \<open>
  C4. Every failure of an entry is to be caught and rendered inside the returned text.
  The code does that for images and for the last-resort decoding only: an upload
  \<open>report.pdf\<close> that the PDF parser rejects makes the whole call throw, and so does an
  archive that holds such a file after a text file, whose text is lost with it.
\<close>

theorem pdf_failure_propagates:
  "analyzeUpload blob_libs (ascii ''report.pdf'') (Broken 5)
     = (Inl (Error (ascii ''Invalid PDF structure'')), zipState0) \<and>
   fst (analyzeUpload blob_libs (ascii ''a.zip'') pdf_zip)
     = Inl (Error (ascii ''Invalid PDF structure''))"
  by (simp only: pdf_run pdf_zip_run simp_thms)

end
